theory Spec2Isabelle
  imports Main "HOL-Library.Code_Target_Nat"
begin

section \<open>The migration tool: a shallow embedding of \<open>migrate/migrate.py\<close>\<close>

text \<open>
  The program keeps one version string in the table \<open>migrations\<close> of a PostgreSQL
  database and moves it up or down by running the SQL scripts of a directory.
  The embedding makes every effect of the Python code explicit:
  \<^item> the directory is an association list of file names and contents, in the order
    \<open>os.listdir\<close> reports them;
  \<^item> the database is a record of the rows of table \<open>migrations\<close> (or \<open>None\<close> when the
    table does not exist) and of everything else the scripts can change;
  \<^item> the SQL engine that runs a script is a parameter \<open>exec\<close>: a script either fails
    (\<open>None\<close>) or yields the next database;
  \<^item> every exception is a value of type \<open>error\<close>, and a run returns the error (if
    any), the database it leaves behind, and the trace of what it did.
  Strings are ASCII byte strings.
\<close>

subsection \<open>Python's \<open>str\<close> and \<open>int\<close> on decimal numerals\<close>

definition PLACES :: nat where
  "PLACES = 4"

definition is_digit :: "char \<Rightarrow> bool" where
  "is_digit c = (c \<in> set ''0123456789'')"

definition digit_val :: "char \<Rightarrow> int" where
  "digit_val c = int (of_char c) - 48"

definition digit_char :: "nat \<Rightarrow> char" where
  "digit_char n = ''0123456789'' ! n"

text \<open>The characters \<open>int()\<close> strips from both ends of an ASCII string:
  tab, line feed, vertical tab, form feed, carriage return and space.\<close>

definition py_isspace :: "char \<Rightarrow> bool" where
  "py_isspace c = (of_char c \<in> set [9, 10, 11, 12, 13, 32 :: nat])"

definition strip :: "string \<Rightarrow> string" where
  "strip s = rev (dropWhile py_isspace (rev (dropWhile py_isspace s)))"

text \<open>Digits with single underscores between them, read left to right into the
  accumulator; anything else is not a numeral.\<close>

fun digits_acc :: "int \<Rightarrow> string \<Rightarrow> int option" where
  "digits_acc a [] = Some a"
| "digits_acc a (c # cs) =
     (if is_digit c then digits_acc (10 * a + digit_val c) cs
      else if c = CHR ''_'' then
        (case cs of [] \<Rightarrow> None
         | d # _ \<Rightarrow> if is_digit d then digits_acc a cs else None)
      else None)"

definition py_digits :: "string \<Rightarrow> int option" where
  "py_digits s =
     (case s of [] \<Rightarrow> None
      | c # _ \<Rightarrow> if is_digit c then digits_acc 0 s else None)"

text \<open>\<open>int(s)\<close>: \<open>None\<close> stands for \<open>ValueError\<close>.\<close>

definition py_int :: "string \<Rightarrow> int option" where
  "py_int s =
     (case strip s of
        [] \<Rightarrow> None
      | c # cs \<Rightarrow>
          if c = CHR ''-'' then map_option uminus (py_digits cs)
          else if c = CHR ''+'' then py_digits cs
          else py_digits (c # cs))"

fun digits_of :: "nat \<Rightarrow> string" where
  "digits_of n =
     (if n < 10 then [digit_char n] else digits_of (n div 10) @ [digit_char (n mod 10)])"

declare digits_of.simps [simp del]

text \<open>\<open>str(i)\<close> for an integer.\<close>

definition py_str :: "int \<Rightarrow> string" where
  "py_str i = (if i < 0 then CHR ''-'' # digits_of (nat (- i)) else digits_of (nat i))"

text \<open>\<open>__int_to_number\<close>: \<open>(PLACES - len(str(i))) * "0" + str(i)\<close>. Python repeats a
  string a negative number of times as the empty string, which is what the truncating
  subtraction of \<open>nat\<close> gives.\<close>

definition int_to_number :: "int \<Rightarrow> string" where
  "int_to_number i = replicate (PLACES - length (py_str i)) (CHR ''0'') @ py_str i"

definition startswith :: "string \<Rightarrow> string \<Rightarrow> bool" where
  "startswith p s = (take (length p) s = p)"

definition endswith :: "string \<Rightarrow> string \<Rightarrow> bool" where
  "endswith e s = (length e \<le> length s \<and> drop (length s - length e) s = e)"

text \<open>\<open>range(a, b)\<close> and \<open>range(a, b, -1)\<close>.\<close>

definition py_range :: "int \<Rightarrow> int \<Rightarrow> int list" where
  "py_range a b = [a..b - 1]"

definition py_range_down :: "int \<Rightarrow> int \<Rightarrow> int list" where
  "py_range_down a b = rev [b + 1..a]"

subsection \<open>Errors, the directory, the database\<close>

datatype error =
    ValueError
  | FileNotFoundError
  | PostgresError
  | TooManyMigrations
  | OSError

type_synonym directory = "(string \<times> string) list"

definition listdir :: "directory \<Rightarrow> string list" where
  "listdir dir = map fst dir"

definition read_file :: "directory \<Rightarrow> string \<Rightarrow> error + string" where
  "read_file dir name =
     (case map_of dir name of None \<Rightarrow> Inl FileNotFoundError | Some sql \<Rightarrow> Inr sql)"

text \<open>\<open>open(path, "a").close()\<close>: creates the file empty when it is absent and leaves
  an existing file as it is.\<close>

definition touch :: "string \<Rightarrow> directory \<Rightarrow> directory" where
  "touch name dir = (if name \<in> set (listdir dir) then dir else dir @ [(name, [])])"

text \<open>When \<open>open\<close> refuses the path. The directory holds regular files only, so a name
  with a slash points into a subdirectory that does not exist (\<open>FileNotFoundError\<close>); a
  name with a NUL character is refused by Python (\<open>ValueError\<close>) and a name longer than
  the file system allows, 255 bytes, by the system (\<open>OSError\<close>). The directory is
  taken to be writable.\<close>

definition NAME_MAX :: nat where
  "NAME_MAX = 255"

definition open_append :: "string \<Rightarrow> directory \<Rightarrow> error + directory" where
  "open_append name dir =
     (if CHR 0x00 \<in> set name then Inl ValueError
      else if CHR ''/'' \<in> set name then Inl FileNotFoundError
      else if length name > NAME_MAX then Inl OSError
      else Inr (touch name dir))"

record 'u db =
  migrations :: "string list option"
  user :: 'u

type_synonym 'u engine = "string \<Rightarrow> 'u db \<Rightarrow> 'u db option"

text \<open>\<open>MIGRATIONS_TABLE\<close>: \<open>CREATE TABLE IF NOT EXISTS migrations\<close>.\<close>

definition create_migrations_table :: "'u db \<Rightarrow> 'u db" where
  "create_migrations_table d =
     (case migrations d of None \<Rightarrow> d\<lparr>migrations := Some []\<rparr> | Some _ \<Rightarrow> d)"

text \<open>\<open>fetchrow(CURRENT_VERSION)\<close>: the first row of the table, if any; the statement
  fails when the table is missing.\<close>

definition fetchrow_version :: "'u db \<Rightarrow> error + string option" where
  "fetchrow_version d =
     (case migrations d of
        None \<Rightarrow> Inl PostgresError
      | Some [] \<Rightarrow> Inr None
      | Some (r # _) \<Rightarrow> Inr (Some r))"

text \<open>\<open>INIT_VERSION\<close>: insert the row \<open>'0000'\<close>; the column is a primary key.\<close>

definition init_version :: "'u db \<Rightarrow> 'u db option" where
  "init_version d =
     (case migrations d of
        None \<Rightarrow> None
      | Some rows \<Rightarrow>
          if ''0000'' \<in> set rows then None
          else Some (d\<lparr>migrations := Some (rows @ [''0000''])\<rparr>))"

text \<open>\<open>UPDATE_VERSION\<close>: \<open>UPDATE migrations SET version = $1\<close> writes the value into
  every row. The column is \<open>VARCHAR(4)\<close> and unique: a longer value is refused, and so
  is the update of two or more rows, which would all hold the same value.\<close>

definition update_version :: "string \<Rightarrow> 'u db \<Rightarrow> 'u db option" where
  "update_version v d =
     (case migrations d of
        None \<Rightarrow> None
      | Some rows \<Rightarrow>
          if length v > 4 then None
          else if rows = [] then Some d
          else if length rows > 1 then None
          else Some (d\<lparr>migrations := Some [v]\<rparr>))"

text \<open>\<open>_get_last_migration_number\<close>: each statement runs outside a transaction and is
  committed on its own.\<close>

definition get_last_migration_number :: "'u db \<Rightarrow> (error + string) \<times> 'u db" where
  "get_last_migration_number d =
     (let d1 = create_migrations_table d in
      case fetchrow_version d1 of
        Inl e \<Rightarrow> (Inl e, d1)
      | Inr None \<Rightarrow>
          (case init_version d1 of
             None \<Rightarrow> (Inl PostgresError, d1)
           | Some d2 \<Rightarrow> (Inr ''0000'', d2))
      | Inr (Some r) \<Rightarrow> (Inr r, d1))"

subsection \<open>Running the scripts\<close>

datatype event =
    ReadFile string
  | Execute string
  | SetVersion string
  | Commit
  | Rollback
  | LogInfo string

record 'u outcome =
  failure :: "error option"
  database :: "'u db"
  events :: "event list"

text \<open>\<open>async with self.conn.transaction()\<close> around the script and the version update:
  when either statement raises, the database is the one before the block.\<close>

definition transaction :: "'u engine \<Rightarrow> string \<Rightarrow> string \<Rightarrow> 'u db \<Rightarrow> 'u outcome" where
  "transaction exec sql v d =
     (case exec sql d of
        None \<Rightarrow> \<lparr>failure = Some PostgresError, database = d,
                 events = [Execute sql, Rollback]\<rparr>
      | Some d1 \<Rightarrow>
          (case update_version v d1 of
             None \<Rightarrow> \<lparr>failure = Some PostgresError, database = d,
                      events = [Execute sql, SetVersion v, Rollback]\<rparr>
           | Some d2 \<Rightarrow> \<lparr>failure = None, database = d2,
                         events = [Execute sql, SetVersion v, Commit]\<rparr>))"

text \<open>The body of the loops of \<open>migrate\<close> and \<open>downgrade\<close>, which differ in the version
  they write (\<open>ver\<close>) and in the line they log (\<open>msg\<close>): read the file, compute the
  version, run the transaction, log.\<close>

definition apply_file ::
  "'u engine \<Rightarrow> directory \<Rightarrow> (string \<Rightarrow> error + string) \<Rightarrow> (string \<Rightarrow> string) \<Rightarrow>
   string \<Rightarrow> 'u db \<Rightarrow> 'u outcome" where
  "apply_file exec dir ver msg file_name d =
     (case read_file dir file_name of
        Inl e \<Rightarrow> \<lparr>failure = Some e, database = d, events = []\<rparr>
      | Inr sql \<Rightarrow>
          (case ver file_name of
             Inl e \<Rightarrow> \<lparr>failure = Some e, database = d, events = [ReadFile file_name]\<rparr>
           | Inr v \<Rightarrow>
               (let r = transaction exec sql v d in
                if failure r = None
                then r\<lparr>events := ReadFile file_name # events r @ [LogInfo (msg file_name)]\<rparr>
                else r\<lparr>events := ReadFile file_name # events r\<rparr>)))"

fun run_files ::
  "'u engine \<Rightarrow> directory \<Rightarrow> (string \<Rightarrow> error + string) \<Rightarrow> (string \<Rightarrow> string) \<Rightarrow>
   string list \<Rightarrow> 'u db \<Rightarrow> 'u outcome" where
  "run_files exec dir ver msg [] d = \<lparr>failure = None, database = d, events = []\<rparr>"
| "run_files exec dir ver msg (f # fs) d =
     (let r = apply_file exec dir ver msg f d in
      if failure r = None
      then (let r' = run_files exec dir ver msg fs (database r)
            in r'\<lparr>events := events r @ events r'\<rparr>)
      else r)"

text \<open>\<open>migrate\<close>: the version written after a script is \<open>file_name[:PLACES]\<close>.\<close>

definition upgrade_version :: "string \<Rightarrow> error + string" where
  "upgrade_version file_name = Inr (take PLACES file_name)"

definition upgrade_msg :: "string \<Rightarrow> string" where
  "upgrade_msg file_name = ''migration '' @ file_name @ '' executed successfully''"

definition matching_files :: "directory \<Rightarrow> string \<Rightarrow> string list \<Rightarrow> string list" where
  "matching_files dir suffix file_ids =
     concat (map (\<lambda>i. filter (\<lambda>f. startswith i f \<and> endswith suffix f) (listdir dir)) file_ids)"

definition upgrade_files :: "directory \<Rightarrow> int \<Rightarrow> int \<Rightarrow> string list" where
  "upgrade_files dir last_number target =
     matching_files dir ''_upgrade.sql''
       (map int_to_number (py_range (last_number + 1) (target + 1)))"

definition abort :: "error \<Rightarrow> 'u db \<Rightarrow> 'u outcome" where
  "abort e d = \<lparr>failure = Some e, database = d, events = []\<rparr>"

definition migrate :: "'u engine \<Rightarrow> directory \<Rightarrow> string \<Rightarrow> 'u db \<Rightarrow> 'u outcome" where
  "migrate exec dir migration_number d =
     (case get_last_migration_number d of
        (Inl e, d1) \<Rightarrow> abort e d1
      | (Inr last_migration_number, d1) \<Rightarrow>
          (case py_int last_migration_number of
             None \<Rightarrow> abort ValueError d1
           | Some last_number \<Rightarrow>
               (case py_int migration_number of
                  None \<Rightarrow> abort ValueError d1
                | Some target \<Rightarrow>
                    run_files exec dir upgrade_version upgrade_msg
                      (upgrade_files dir last_number target) d1)))"

text \<open>\<open>downgrade\<close>: the version written after a script is
  \<open>__int_to_number(int(file_name[:PLACES]) - 1)\<close>, computed before the transaction
  opens.\<close>

definition downgrade_version :: "string \<Rightarrow> error + string" where
  "downgrade_version file_name =
     (case py_int (take PLACES file_name) of
        None \<Rightarrow> Inl ValueError
      | Some n \<Rightarrow> Inr (int_to_number (n - 1)))"

definition downgrade_msg :: "string \<Rightarrow> string" where
  "downgrade_msg file_name = ''successfully executed '' @ file_name"

definition downgrade_files :: "directory \<Rightarrow> int \<Rightarrow> int \<Rightarrow> string list" where
  "downgrade_files dir current target =
     matching_files dir ''_downgrade.sql'' (map int_to_number (py_range_down current target))"

definition downgrade :: "'u engine \<Rightarrow> directory \<Rightarrow> string \<Rightarrow> 'u db \<Rightarrow> 'u outcome" where
  "downgrade exec dir migration_number d =
     (case get_last_migration_number d of
        (Inl e, d1) \<Rightarrow> abort e d1
      | (Inr current_version, d1) \<Rightarrow>
          (case py_int current_version of
             None \<Rightarrow> abort ValueError d1
           | Some current \<Rightarrow>
               (case py_int migration_number of
                  None \<Rightarrow> abort ValueError d1
                | Some target \<Rightarrow>
                    run_files exec dir downgrade_version downgrade_msg
                      (downgrade_files dir current target) d1)))"

subsection \<open>Generating the next pair of scripts\<close>

text \<open>\<open>max(files, key=...)\<close> returns the first file whose key is largest.\<close>

fun max_by_key :: "string \<Rightarrow> int \<Rightarrow> (string \<times> int) list \<Rightarrow> string" where
  "max_by_key best k [] = best"
| "max_by_key best k ((f, kf) # rest) =
     (if kf > k then max_by_key f kf rest else max_by_key best k rest)"

fun file_keys :: "string list \<Rightarrow> (string \<times> int) list option" where
  "file_keys [] = Some []"
| "file_keys (f # fs) =
     (case py_int (take PLACES f) of
        None \<Rightarrow> None
      | Some k \<Rightarrow> map_option (\<lambda>ks. (f, k) # ks) (file_keys fs))"

definition replace_spaces :: "string \<Rightarrow> string" where
  "replace_spaces s = map (\<lambda>c. if c = CHR '' '' then CHR ''_'' else c) s"

text \<open>\<open>__generate_name\<close>; \<open>now\<close> is \<open>datetime.now().strftime("%Y%m%d_%H%M")\<close>, and
  \<open>if not migration_name\<close> holds for \<open>None\<close> and for the empty string.\<close>

definition generate_name :: "string \<Rightarrow> string option \<Rightarrow> directory \<Rightarrow> error + string" where
  "generate_name now migration_name dir =
     (let files = filter (endswith ''.sql'') (listdir dir) in
      if length files = 0 then Inr ''0001_initial''
      else
        (let label = (case migration_name of
                        None \<Rightarrow> ''auto_'' @ now
                      | Some n \<Rightarrow> if n = [] then ''auto_'' @ now else replace_spaces n)
         in case file_keys files of
              None \<Rightarrow> Inl ValueError
            | Some [] \<Rightarrow> Inl ValueError
            | Some ((f, k) # rest) \<Rightarrow>
                (let previous_filename = max_by_key f k rest in
                 case py_int (take PLACES previous_filename) of
                   None \<Rightarrow> Inl ValueError
                 | Some p \<Rightarrow>
                     (let number = p + 1 in
                      if number > 9999 then Inl TooManyMigrations
                      else Inr (int_to_number number @ ''_'' @ label)))))"

text \<open>\<open>generate\<close>: the two files are opened one after the other, so that an error at the
  second \<open>open\<close> leaves the first file behind.\<close>

definition generate ::
  "string \<Rightarrow> string option \<Rightarrow> directory \<Rightarrow> error option \<times> directory \<times> event list" where
  "generate now migration_name dir =
     (case generate_name now migration_name dir of
        Inl e \<Rightarrow> (Some e, dir, [])
      | Inr filename \<Rightarrow>
          (case open_append (filename @ ''_upgrade.sql'') dir of
             Inl e \<Rightarrow> (Some e, dir, [])
           | Inr dir1 \<Rightarrow>
               (case open_append (filename @ ''_downgrade.sql'') dir1 of
                  Inl e \<Rightarrow> (Some e, dir1, [])
                | Inr dir2 \<Rightarrow>
                    (None, dir2, [LogInfo ''migration file generated successfully'']))))"

text \<open>The label \<open>__generate_name\<close> puts after the version.\<close>

definition supplied_label :: "string \<Rightarrow> string option \<Rightarrow> string" where
  "supplied_label now migration_name =
     (case migration_name of
        None \<Rightarrow> ''auto_'' @ now
      | Some n \<Rightarrow> if n = [] then ''auto_'' @ now else replace_spaces n)"

subsection \<open>Reading a run\<close>

text \<open>What \<open>currentVersion\<close> reports, and the rows of the version table.\<close>

definition current_version :: "'u db \<Rightarrow> error + string" where
  "current_version d = fst (get_last_migration_number d)"

definition version_rows :: "'u db \<Rightarrow> string list" where
  "version_rows d = (case migrations d of None \<Rightarrow> [] | Some rows \<Rightarrow> rows)"

text \<open>The files a run opened, the scripts it sent to the database and the versions it
  wrote, each in the order of the trace.\<close>

fun files_read :: "event list \<Rightarrow> string list" where
  "files_read [] = []"
| "files_read (ReadFile f # es) = f # files_read es"
| "files_read (_ # es) = files_read es"

fun scripts_run :: "event list \<Rightarrow> string list" where
  "scripts_run [] = []"
| "scripts_run (Execute sql # es) = sql # scripts_run es"
| "scripts_run (_ # es) = scripts_run es"

fun versions_written :: "event list \<Rightarrow> string list" where
  "versions_written [] = []"
| "versions_written (SetVersion v # es) = v # versions_written es"
| "versions_written (_ # es) = versions_written es"

text \<open>The script of a file, and the trace of one file whose transaction commits.\<close>

definition script_of :: "directory \<Rightarrow> string \<Rightarrow> string" where
  "script_of dir f = (case read_file dir f of Inr sql \<Rightarrow> sql | Inl _ \<Rightarrow> [])"

definition committed_step :: "directory \<Rightarrow> (string \<Rightarrow> string) \<Rightarrow> string \<Rightarrow> string \<Rightarrow> event list" where
  "committed_step dir msg f v =
     [ReadFile f, Execute (script_of dir f), SetVersion v, Commit, LogInfo (msg f)]"

text \<open>The files of one version with a given suffix, in listing order, and the version
  one less than a file's own prefix.\<close>

definition version_files :: "directory \<Rightarrow> string \<Rightarrow> int \<Rightarrow> string list" where
  "version_files dir suffix v =
     filter (\<lambda>f. startswith (int_to_number v) f \<and> endswith suffix f) (listdir dir)"

definition previous_version :: "string \<Rightarrow> string" where
  "previous_version f =
     (case py_int (take PLACES f) of None \<Rightarrow> [] | Some n \<Rightarrow> int_to_number (n - 1))"

text \<open>An engine whose scripts, where they succeed, leave the table \<open>migrations\<close> as they
  found it.\<close>

definition keeps_versions :: "'u engine \<Rightarrow> bool" where
  "keeps_versions exec = (\<forall>sql d d'. exec sql d = Some d' \<longrightarrow> migrations d' = migrations d)"





subsection \<open>A concrete engine and concrete directories\<close>

text \<open>An engine whose database is the list of the scripts applied so far: every script
  is appended to it, except the script \<open>boom\<close>, which raises an error.\<close>

definition recording_engine :: "string list engine" where
  "recording_engine sql d = (if sql = ''boom'' then None else Some (d\<lparr>user := user d @ [sql]\<rparr>))"

text \<open>An engine whose database is the list of its tables: \<open>create t\<close> fails when the
  table \<open>t\<close> exists, \<open>drop t\<close> fails when it does not, and any other text is an error.\<close>

definition table_engine :: "string list engine" where
  "table_engine sql d =
     (if take 7 sql = ''create '' then
        (if drop 7 sql \<in> set (user d) then None
         else Some (d\<lparr>user := user d @ [drop 7 sql]\<rparr>))
      else if take 5 sql = ''drop '' then
        (if drop 5 sql \<in> set (user d)
         then Some (d\<lparr>user := removeAll (drop 5 sql) (user d)\<rparr>)
         else None)
      else None)"

text \<open>The same engine with one more statement, which inserts a row into the table
  \<open>migrations\<close>.\<close>

definition tampering_engine :: "string list engine" where
  "tampering_engine sql d =
     (if sql = ''insert into migrations values (7777)'' then
        (case migrations d of
           None \<Rightarrow> None
         | Some rows \<Rightarrow> Some (d\<lparr>migrations := Some (rows @ [''7777''])\<rparr>))
      else table_engine sql d)"

definition db_with :: "string \<Rightarrow> string list \<Rightarrow> string list db" where
  "db_with v tables = \<lparr>migrations = Some [v], user = tables\<rparr>"

definition tampered :: directory where
  "tampered =
     [(''0002_users_upgrade.sql'', ''create users''),
      (''0002_users_downgrade.sql'', ''insert into migrations values (7777)'')]"

definition fresh_db :: "string list db" where
  "fresh_db = \<lparr>migrations = None, user = []\<rparr>"

definition db_at :: "string \<Rightarrow> string list db" where
  "db_at v = \<lparr>migrations = Some [v], user = []\<rparr>"

definition two_rows :: "string list db" where
  "two_rows = \<lparr>migrations = Some [''0000'', ''0007''], user = []\<rparr>"

definition three_pairs :: directory where
  "three_pairs =
     [(''0002_users_upgrade.sql'', ''create users''),
      (''0001_initial_upgrade.sql'', ''create schema''),
      (''0003_orders_downgrade.sql'', ''drop orders''),
      (''0001_initial_downgrade.sql'', ''drop schema''),
      (''0003_orders_upgrade.sql'', ''create orders''),
      (''0002_users_downgrade.sql'', ''drop users''),
      (''README.md'', ''notes'')]"

definition broken_second :: directory where
  "broken_second =
     [(''0001_initial_upgrade.sql'', ''create schema''),
      (''0002_users_upgrade.sql'', ''boom''),
      (''0003_orders_upgrade.sql'', ''create orders''),
      (''0003_orders_downgrade.sql'', ''drop orders''),
      (''0002_users_downgrade.sql'', ''boom''),
      (''0001_initial_downgrade.sql'', ''drop schema'')]"


definition up_to_42 :: directory where
  "up_to_42 =
     [(''0041_orders_upgrade.sql'', ''create orders''),
      (''0042_items_upgrade.sql'', ''create items''),
      (''0042_items_downgrade.sql'', ''drop items''),
      (''notes.txt'', ''not a script''),
      (''0041_orders_downgrade.sql'', ''drop orders'')]"

definition at_ceiling :: directory where
  "at_ceiling =
     [(''9998_almost_upgrade.sql'', []),
      (''9999_last_upgrade.sql'', []),
      (''9999_last_downgrade.sql'', []),
      (''9998_almost_downgrade.sql'', [])]"

text \<open>The key \<open>int(x[:PLACES])\<close> of a file whose prefix is a numeral.\<close>

definition file_key :: "string \<Rightarrow> int" where
  "file_key f = (case py_int (take PLACES f) of None \<Rightarrow> 0 | Some n \<Rightarrow> n)"

section \<open>Properties\<close>

subsection \<open>Version numbers: rendering and parsing\<close>

lemma digit_char_is_digit: "n < 10 \<Longrightarrow> is_digit (digit_char n)"
proof -
  assume "n < 10"
  then have "n \<in> {0,1,2,3,4,5,6,7,8,9}" by auto
  then show ?thesis
    by (auto simp: is_digit_def digit_char_def)
qed

lemma digit_val_digit_char: "n < 10 \<Longrightarrow> digit_val (digit_char n) = int n"
proof -
  assume "n < 10"
  then have "n \<in> {0,1,2,3,4,5,6,7,8,9}" by auto
  then show ?thesis
    by (auto simp: digit_val_def digit_char_def)
qed

lemma is_digit_not_space: "is_digit c \<Longrightarrow> \<not> py_isspace c"
  by (auto simp: is_digit_def py_isspace_def)

lemma is_digit_not_sign: "is_digit c \<Longrightarrow> c \<noteq> CHR ''-'' \<and> c \<noteq> CHR ''+'' \<and> c \<noteq> CHR ''_''"
  by (auto simp: is_digit_def)

lemma digits_of_nonempty: "digits_of n \<noteq> []"
  by (subst digits_of.simps) simp

lemma digits_of_all_digits: "c \<in> set (digits_of n) \<Longrightarrow> is_digit c"
proof (induction n arbitrary: c rule: digits_of.induct)
  case (1 n)
  show ?case
  proof (cases "n < 10")
    case True
    with "1.prems" show ?thesis
      by (subst (asm) digits_of.simps) (simp add: digit_char_is_digit)
  next
    case False
    with "1.prems" have "c \<in> set (digits_of (n div 10)) \<or> c = digit_char (n mod 10)"
      by (subst (asm) digits_of.simps) auto
    with False "1.IH" show ?thesis
      by (auto simp: digit_char_is_digit)
  qed
qed

lemma digits_acc_snoc:
  "\<forall>x \<in> set xs. is_digit x \<Longrightarrow> is_digit c \<Longrightarrow>
   digits_acc a (xs @ [c]) = map_option (\<lambda>r. 10 * r + digit_val c) (digits_acc a xs)"
  by (induction xs arbitrary: a) simp_all

lemma digits_acc_digits_of: "digits_acc 0 (digits_of n) = Some (int n)"
proof (induction n rule: digits_of.induct)
  case (1 n)
  show ?case
  proof (cases "n < 10")
    case True
    then show ?thesis
      by (subst digits_of.simps) (simp add: digit_char_is_digit digit_val_digit_char)
  next
    case False
    have "digits_acc 0 (digits_of (n div 10) @ [digit_char (n mod 10)]) =
          map_option (\<lambda>r. 10 * r + digit_val (digit_char (n mod 10))) (digits_acc 0 (digits_of (n div 10)))"
      by (rule digits_acc_snoc) (simp_all add: digits_of_all_digits digit_char_is_digit)
    with False "1.IH" show ?thesis
      by (subst digits_of.simps) (simp add: digit_val_digit_char zdiv_int zmod_int)
  qed
qed

lemma digits_acc_zeros: "digits_acc 0 (replicate k (CHR ''0'') @ s) = digits_acc 0 s"
  by (induction k) (simp_all add: is_digit_def digit_val_def)

lemma length_digits_of: "n < 10 ^ Suc k \<Longrightarrow> length (digits_of n) \<le> Suc k"
proof (induction k arbitrary: n)
  case 0
  then show ?case by (subst digits_of.simps) simp
next
  case (Suc k)
  show ?case
  proof (cases "n < 10")
    case True
    then show ?thesis by (subst digits_of.simps) simp
  next
    case False
    from Suc.prems have "n div 10 < 10 ^ Suc k" by simp
    then have "length (digits_of (n div 10)) \<le> Suc k" by (rule Suc.IH)
    with False show ?thesis by (subst digits_of.simps) simp
  qed
qed

lemma strip_digits:
  assumes "s \<noteq> []" and "\<forall>c \<in> set s. is_digit c"
  shows "strip s = s"
proof -
  from assms have h: "\<not> py_isspace (hd s)" by (simp add: is_digit_not_space)
  from assms have l: "\<not> py_isspace (hd (rev s))" by (simp add: is_digit_not_space hd_rev)
  from assms h have "dropWhile py_isspace s = s" by (cases s) simp_all
  moreover from assms l have "dropWhile py_isspace (rev s) = rev s" by (cases "rev s") simp_all
  ultimately show ?thesis by (simp add: strip_def)
qed

lemma py_int_digits:
  assumes "s \<noteq> []" and "\<forall>c \<in> set s. is_digit c"
  shows "py_int s = digits_acc 0 s"
proof -
  from assms obtain c cs where s: "s = c # cs" and c: "is_digit c"
    by (cases s) auto
  have "py_int s = (case s of [] \<Rightarrow> None
      | c # cs \<Rightarrow>
          if c = CHR ''-'' then map_option uminus (py_digits cs)
          else if c = CHR ''+'' then py_digits cs
          else py_digits (c # cs))"
    unfolding py_int_def strip_digits [OF assms] ..
  with s c show ?thesis
    by (simp add: py_digits_def is_digit_not_sign)
qed

lemma is_digit_zero: "is_digit (CHR ''0'')"
  by (simp add: is_digit_def)

lemma int_to_number_digits:
  assumes "0 \<le> v"
  shows "int_to_number v \<noteq> []" and "\<forall>c \<in> set (int_to_number v). is_digit c"
  using assms
  by (auto simp: int_to_number_def py_str_def digits_of_nonempty digits_of_all_digits is_digit_zero)

lemma py_int_int_to_number: "0 \<le> v \<Longrightarrow> py_int (int_to_number v) = Some v"
proof -
  assume v: "0 \<le> v"
  then have "py_int (int_to_number v) = digits_acc 0 (int_to_number v)"
    by (intro py_int_digits int_to_number_digits)
  also have "\<dots> = Some v"
    using v by (simp add: int_to_number_def py_str_def digits_acc_zeros digits_acc_digits_of)
  finally show ?thesis .
qed

lemma length_int_to_number: "0 \<le> v \<Longrightarrow> v \<le> 9999 \<Longrightarrow> length (int_to_number v) = PLACES"
proof -
  assume "0 \<le> v" "v \<le> 9999"
  then have "nat v < 10 ^ Suc 3" by simp
  then have "length (digits_of (nat v)) \<le> Suc 3" by (rule length_digits_of)
  with \<open>0 \<le> v\<close> show ?thesis
    by (simp add: int_to_number_def py_str_def PLACES_def)
qed


subsection \<open>The version store\<close>

lemma create_table_present: "migrations (create_migrations_table d) \<noteq> None"
  by (simp add: create_migrations_table_def split: option.splits)

lemma create_table_idem:
  "create_migrations_table (create_migrations_table d) = create_migrations_table d"
  by (simp add: create_migrations_table_def split: option.splits)

lemma get_last_fresh:
  "migrations d = None \<or> migrations d = Some [] \<Longrightarrow>
   get_last_migration_number d = (Inr ''0000'', d\<lparr>migrations := Some [''0000'']\<rparr>)"
  by (auto simp: get_last_migration_number_def create_migrations_table_def fetchrow_version_def
      init_version_def Let_def)

lemma get_last_row:
  "migrations d = Some (r # rows) \<Longrightarrow> get_last_migration_number d = (Inr r, d)"
  by (simp add: get_last_migration_number_def create_migrations_table_def fetchrow_version_def Let_def)

text \<open>
  Claim C5. \<open>_get_last_migration_number\<close> first creates the table \<open>migrations\<close> when it
  is absent, and creating it twice is creating it once. When the table then holds no
  row, the row \<open>0000\<close> is inserted, \<open>0000\<close> is returned and the table holds exactly that
  one row afterwards. When a row exists, the first row is returned and the database is
  left exactly as it was: nothing is inserted or changed.
\<close>

theorem currentVersion_read_with_init:
  "migrations (create_migrations_table d) \<noteq> None \<and>
   create_migrations_table (create_migrations_table d) = create_migrations_table d \<and>
   (migrations d = None \<or> migrations d = Some [] \<longrightarrow>
      get_last_migration_number d = (Inr ''0000'', d\<lparr>migrations := Some [''0000'']\<rparr>)) \<and>
   (\<forall>r rows. migrations d = Some (r # rows) \<longrightarrow> get_last_migration_number d = (Inr r, d))"
  using create_table_present [of d] create_table_idem [of d] get_last_fresh [of d] get_last_row [of d]
  by blast

theorem currentVersion_read_with_init_witness:
  "migrations \<lparr>migrations = None, user = ()\<rparr> = None \<and>
   get_last_migration_number \<lparr>migrations = None, user = ()\<rparr> =
     (Inr ''0000'', \<lparr>migrations = Some [''0000''], user = ()\<rparr>) \<and>
   migrations \<lparr>migrations = Some [''0007''], user = ()\<rparr> = Some [''0007''] \<and>
   get_last_migration_number \<lparr>migrations = Some [''0007''], user = ()\<rparr> =
     (Inr ''0007'', \<lparr>migrations = Some [''0007''], user = ()\<rparr>)"
  using currentVersion_read_with_init [of "\<lparr>migrations = None, user = ()\<rparr>"]
    currentVersion_read_with_init [of "\<lparr>migrations = Some [''0007''], user = ()\<rparr>"]
  by simp

subsection \<open>Which files a run selects\<close>


lemma startswith_version:
  "0 \<le> v \<Longrightarrow> v \<le> 9999 \<Longrightarrow> startswith (int_to_number v) f \<longleftrightarrow> take PLACES f = int_to_number v"
  by (simp add: startswith_def length_int_to_number)

lemma set_version_files:
  "0 \<le> v \<Longrightarrow> v \<le> 9999 \<Longrightarrow>
   set (version_files dir suffix v) =
     {f \<in> set (listdir dir). endswith suffix f \<and> take PLACES f = int_to_number v}"
  by (auto simp: version_files_def startswith_version)








lemma read_listed: "f \<in> set (listdir dir) \<Longrightarrow> \<exists>sql. read_file dir f = Inr sql"
  by (cases "map_of dir f") (auto simp: read_file_def listdir_def map_of_eq_None_iff)

subsection \<open>One file, and the loop over the files\<close>

lemma update_single_row:
  "migrations d = Some [r] \<Longrightarrow> length v \<le> 4 \<Longrightarrow>
   update_version v d = Some (d\<lparr>migrations := Some [v]\<rparr>)"
  by (simp add: update_version_def)

lemma transaction_rolls_back:
  assumes "exec sql d = None \<or> (\<exists>d1. exec sql d = Some d1 \<and> update_version v d1 = None)"
  shows "transaction exec sql v d =
     \<lparr>failure = Some PostgresError, database = d,
      events = Execute sql # (if exec sql d = None then [Rollback] else [SetVersion v, Rollback])\<rparr>"
  using assms by (auto simp: transaction_def)

lemma transaction_failure_keeps_db:
  "failure (transaction exec sql v d) \<noteq> None \<Longrightarrow> database (transaction exec sql v d) = d"
  by (auto simp: transaction_def split: option.splits)

lemma read_script_of: "f \<in> set (listdir dir) \<Longrightarrow> read_file dir f = Inr (script_of dir f)"
  using read_listed [of f dir] by (auto simp: script_of_def)

lemma apply_file_script:
  assumes "f \<in> set (listdir dir)" and "ver f = Inr v" and "length v \<le> 4"
    and "migrations d = Some [r]"
    and "exec (script_of dir f) d = Some e" and "migrations e = migrations d"
  shows "apply_file exec dir ver msg f d =
     \<lparr>failure = None, database = e\<lparr>migrations := Some [v]\<rparr>,
      events = committed_step dir msg f v\<rparr>"
proof -
  from assms(4,6) have "migrations e = Some [r]" by simp
  then have "update_version v e = Some (e\<lparr>migrations := Some [v]\<rparr>)"
    using assms(3) by (rule update_single_row)
  with assms(5) have "transaction exec (script_of dir f) v d =
     \<lparr>failure = None, database = e\<lparr>migrations := Some [v]\<rparr>,
      events = [Execute (script_of dir f), SetVersion v, Commit]\<rparr>"
    by (simp add: transaction_def)
  with read_script_of [OF assms(1)] assms(2) show ?thesis
    by (simp add: apply_file_def committed_step_def)
qed

lemma apply_file_rolls_back:
  assumes "read_file dir f = Inr sql" and "ver f = Inr v"
    and "exec sql d = None \<or> (\<exists>d1. exec sql d = Some d1 \<and> update_version v d1 = None)"
  shows "apply_file exec dir ver msg f d =
     \<lparr>failure = Some PostgresError, database = d,
      events = ReadFile f # Execute sql #
        (if exec sql d = None then [Rollback] else [SetVersion v, Rollback])\<rparr>"
  using assms transaction_rolls_back [of exec sql d v]
  by (simp add: apply_file_def)

lemma apply_file_failure_keeps_db:
  "failure (apply_file exec dir ver msg f d) \<noteq> None \<Longrightarrow>
   database (apply_file exec dir ver msg f d) = d"
  using transaction_failure_keeps_db [of exec _ _ d]
  by (auto simp: apply_file_def Let_def split: sum.splits)

lemma apply_file_reads_one:
  "failure (apply_file exec dir ver msg f d) = None \<Longrightarrow>
   files_read (events (apply_file exec dir ver msg f d)) = [f]"
  by (auto simp: apply_file_def transaction_def Let_def split: sum.splits option.splits)

lemma files_read_append: "files_read (xs @ ys) = files_read xs @ files_read ys"
  by (induction xs rule: files_read.induct) simp_all

lemma scripts_run_append: "scripts_run (xs @ ys) = scripts_run xs @ scripts_run ys"
  by (induction xs rule: scripts_run.induct) simp_all

lemma versions_written_append:
  "versions_written (xs @ ys) = versions_written xs @ versions_written ys"
  by (induction xs rule: versions_written.induct) simp_all

lemma run_files_append:
  "run_files exec dir ver msg (xs @ ys) d =
     (if failure (run_files exec dir ver msg xs d) = None
      then (run_files exec dir ver msg ys (database (run_files exec dir ver msg xs d)))
             \<lparr>events := events (run_files exec dir ver msg xs d) @
                events (run_files exec dir ver msg ys (database (run_files exec dir ver msg xs d)))\<rparr>
      else run_files exec dir ver msg xs d)"
proof (induction xs arbitrary: d)
  case Nil
  show ?case by simp
next
  case (Cons x xs)
  let ?r = "apply_file exec dir ver msg x d"
  show ?case
  proof (cases "failure ?r")
    case (Some e)
    then show ?thesis by (simp add: Let_def)
  next
    case ok: None
    show ?thesis
    proof (cases "failure (run_files exec dir ver msg xs (database ?r))")
      case None
      with ok show ?thesis by (simp add: Let_def Cons.IH)
    next
      case (Some e)
      with ok show ?thesis by (simp add: Let_def Cons.IH)
    qed
  qed
qed

lemma run_files_reads:
  "failure (run_files exec dir ver msg fs d) = None \<Longrightarrow>
   files_read (events (run_files exec dir ver msg fs d)) = fs"
proof (induction fs arbitrary: d)
  case Nil
  show ?case by simp
next
  case (Cons f fs)
  let ?r = "apply_file exec dir ver msg f d"
  from Cons.prems have ok: "failure ?r = None"
    by (auto simp: Let_def split: if_splits)
  with Cons.prems have "failure (run_files exec dir ver msg fs (database ?r)) = None"
    by (simp add: Let_def)
  then have "files_read (events (run_files exec dir ver msg fs (database ?r))) = fs"
    by (rule Cons.IH)
  with ok show ?case
    by (simp add: Let_def files_read_append apply_file_reads_one)
qed

lemma run_files_halts:
  assumes "failure (run_files exec dir ver msg pre d) = None"
    and "failure (apply_file exec dir ver msg f (database (run_files exec dir ver msg pre d))) \<noteq> None"
  shows "run_files exec dir ver msg (pre @ f # post) d =
     (apply_file exec dir ver msg f (database (run_files exec dir ver msg pre d)))
       \<lparr>events := events (run_files exec dir ver msg pre d) @
          events (apply_file exec dir ver msg f (database (run_files exec dir ver msg pre d)))\<rparr>"
proof -
  from assms(2) obtain e where
    "failure (apply_file exec dir ver msg f (database (run_files exec dir ver msg pre d))) = Some e"
    by auto
  with assms(1) show ?thesis
    by (simp add: run_files_append Let_def)
qed







lemma get_last_single:
  assumes "length (version_rows d) \<le> 1" and "get_last_migration_number d = (Inr cur, d1)"
  shows "migrations d1 = Some [cur]"
proof (cases "migrations d")
  case None
  with assms(2) show ?thesis by (auto simp: get_last_fresh)
next
  case (Some rows)
  show ?thesis
  proof (cases rows)
    case Nil
    with Some assms(2) show ?thesis by (auto simp: get_last_fresh)
  next
    case (Cons r rs)
    with Some assms(1) have "rs = []" by (simp add: version_rows_def)
    with Some Cons assms(2) show ?thesis by (auto simp: get_last_row)
  qed
qed

lemma get_last_total: "\<exists>cur d1. get_last_migration_number d = (Inr cur, d1)"
proof (cases "migrations d")
  case None
  then show ?thesis by (simp add: get_last_fresh)
next
  case (Some rows)
  then show ?thesis by (cases rows) (simp_all add: get_last_fresh get_last_row)
qed

lemma get_last_again:
  assumes "get_last_migration_number d = (Inr cur, d1)"
  shows "get_last_migration_number d1 = (Inr cur, d1)"
proof -
  have "migrations d = None \<or> migrations d = Some [] \<or> (\<exists>r rows. migrations d = Some (r # rows))"
  proof (cases "migrations d")
    case None
    then show ?thesis by simp
  next
    case (Some rows)
    then show ?thesis by (cases rows) simp_all
  qed
  then show ?thesis
  proof (elim disjE exE)
    fix r rows assume "migrations d = Some (r # rows)"
    with assms show ?thesis by (simp add: get_last_row)
  next
    assume "migrations d = None"
    with assms get_last_fresh [of d]
    have "d1 = d\<lparr>migrations := Some [''0000'']\<rparr>" "cur = ''0000''"
      by auto
    then show ?thesis by (simp add: get_last_row)
  next
    assume "migrations d = Some []"
    with assms get_last_fresh [of d]
    have "d1 = d\<lparr>migrations := Some [''0000'']\<rparr>" "cur = ''0000''"
      by auto
    then show ?thesis by (simp add: get_last_row)
  qed
qed

subsection \<open>The two commands as runs of the loop\<close>

lemma migrate_unfold:
  assumes "get_last_migration_number d = (Inr cur, d1)"
    and "py_int cur = Some c" and "py_int target = Some t"
  shows "migrate exec dir target d =
         run_files exec dir upgrade_version upgrade_msg (upgrade_files dir c t) d1"
  using assms by (simp add: migrate_def)

lemma downgrade_unfold:
  assumes "get_last_migration_number d = (Inr cur, d1)"
    and "py_int cur = Some c" and "py_int target = Some t"
  shows "downgrade exec dir target d =
         run_files exec dir downgrade_version downgrade_msg (downgrade_files dir c t) d1"
  using assms by (simp add: downgrade_def)

lemma upgrade_files_empty: "t \<le> c \<Longrightarrow> upgrade_files dir c t = []"
  by (simp add: upgrade_files_def py_range_def matching_files_def)

lemma downgrade_files_empty: "c \<le> t \<Longrightarrow> downgrade_files dir c t = []"
  by (simp add: downgrade_files_def py_range_down_def matching_files_def)

text \<open>
  Claim C4. When the target is not above the current version, \<open>migrate\<close> reads no file,
  runs no script and writes no version; the same for \<open>downgrade\<close> when the target is
  not below the current version. The database is the one \<open>_get_last_migration_number\<close>
  left, and reading the version again gives the same value.
\<close>

theorem no_op_when_target_reached:
  assumes "get_last_migration_number d = (Inr cur, d1)"
    and "py_int cur = Some c" and "py_int target = Some t"
  shows "(t \<le> c \<longrightarrow>
            migrate exec dir target d = \<lparr>failure = None, database = d1, events = []\<rparr>) \<and>
         (c \<le> t \<longrightarrow>
            downgrade exec dir target d = \<lparr>failure = None, database = d1, events = []\<rparr>) \<and>
         get_last_migration_number d1 = (Inr cur, d1)"
  using assms
  by (simp add: migrate_unfold [OF assms] downgrade_unfold [OF assms]
      upgrade_files_empty downgrade_files_empty get_last_again)

lemma py_int_0002: "py_int ''0002'' = Some 2"
  by code_simp

lemma py_int_0001: "py_int ''0001'' = Some 1"
  by code_simp

lemma py_int_0003: "py_int ''0003'' = Some 3"
  by code_simp

lemma py_int_0000: "py_int ''0000'' = Some 0"
  by code_simp

theorem no_op_when_target_reached_witness:
  "get_last_migration_number (db_at ''0002'') = (Inr ''0002'', db_at ''0002'') \<and>
   py_int ''0002'' = Some 2 \<and> py_int ''0001'' = Some 1 \<and> py_int ''0003'' = Some 3 \<and>
   (1::int) \<le> 2 \<and> (2::int) \<le> 3 \<and>
   migrate recording_engine three_pairs ''0001'' (db_at ''0002'') =
     \<lparr>failure = None, database = db_at ''0002'', events = []\<rparr> \<and>
   downgrade recording_engine three_pairs ''0003'' (db_at ''0002'') =
     \<lparr>failure = None, database = db_at ''0002'', events = []\<rparr>"
proof -
  have g: "get_last_migration_number (db_at ''0002'') = (Inr ''0002'', db_at ''0002'')"
    by (simp add: db_at_def get_last_row)
  from no_op_when_target_reached [OF g py_int_0002 py_int_0001, of recording_engine three_pairs]
    no_op_when_target_reached [OF g py_int_0002 py_int_0003, of recording_engine three_pairs]
  show ?thesis
    using g py_int_0001 py_int_0002 py_int_0003 by simp
qed

lemma apply_file_version:
  assumes "keeps_versions exec" and "migrations d = Some [r]"
    and "failure (apply_file exec dir ver msg f d) = None"
  shows "\<exists>v. ver f = Inr v \<and> migrations (database (apply_file exec dir ver msg f d)) = Some [v]"
proof -
  from assms(3) obtain sql v where sql: "read_file dir f = Inr sql" and v: "ver f = Inr v"
    by (auto simp: apply_file_def split: sum.splits)
  with assms(3) have ok: "failure (transaction exec sql v d) = None"
    by (simp add: apply_file_def Let_def split: if_splits)
  then obtain d1 d2 where d1: "exec sql d = Some d1" and d2: "update_version v d1 = Some d2"
    by (auto simp: transaction_def split: option.splits)
  from d1 assms(1,2) have "migrations d1 = Some [r]"
    by (auto simp: keeps_versions_def)
  with d2 have "migrations d2 = Some [v]"
    by (auto simp: update_version_def split: if_splits)
  with sql v d1 d2 show ?thesis
    by (simp add: apply_file_def transaction_def)
qed

lemma run_files_version:
  assumes "keeps_versions exec" and "migrations d = Some [r]"
    and "failure (run_files exec dir ver msg fs d) = None"
  shows "\<exists>w. (fs = [] \<and> w = r \<or> fs \<noteq> [] \<and> ver (last fs) = Inr w) \<and>
             migrations (database (run_files exec dir ver msg fs d)) = Some [w]"
  using assms(2,3)
proof (induction fs arbitrary: d r)
  case Nil
  then show ?case by simp
next
  case (Cons f fs)
  let ?r = "apply_file exec dir ver msg f d"
  from Cons.prems(2) have ok: "failure ?r = None"
    by (auto simp: Let_def split: if_splits)
  with Cons.prems(2) have rest: "failure (run_files exec dir ver msg fs (database ?r)) = None"
    by (simp add: Let_def)
  from apply_file_version [OF assms(1) Cons.prems(1) ok]
  obtain v where v: "ver f = Inr v" and mv: "migrations (database ?r) = Some [v]" by blast
  from Cons.IH [OF mv rest] v ok show ?case
    by (auto simp: Let_def)
qed

text \<open>
  Claim C1. Take a run of \<open>migrate\<close> or of \<open>downgrade\<close> whose list of files is
  \<open>pre @ f # post\<close>, in which every file of \<open>pre\<close> has been committed and the step of
  \<open>f\<close> fails, in its script or in its version update. Then the run ends with that
  error, the database is exactly the one the last committed step left (the transaction
  of \<open>f\<close> is rolled back), the trace ends with the rollback, and the files read and
  the scripts run are those of \<open>pre\<close> and \<open>f\<close> only: nothing of \<open>post\<close> is touched. When
  scripts leave the version table alone and it holds one row, the stored version is the
  one written for the last file of \<open>pre\<close>, or the starting version when \<open>pre\<close> is empty.
\<close>

theorem step_failure_rolls_back_and_halts:
  assumes "get_last_migration_number d = (Inr cur, d1)"
    and "py_int cur = Some c" and "py_int target = Some t"
    and "(run = migrate exec dir target d \<and> files = upgrade_files dir c t \<and>
          ver = upgrade_version \<and> msg = upgrade_msg) \<or>
         (run = downgrade exec dir target d \<and> files = downgrade_files dir c t \<and>
          ver = downgrade_version \<and> msg = downgrade_msg)"
    and "files = pre @ f # post"
    and "failure (run_files exec dir ver msg pre d1) = None"
    and "dk = database (run_files exec dir ver msg pre d1)"
    and "read_file dir f = Inr sql" and "ver f = Inr v"
    and "exec sql dk = None \<or> (\<exists>d'. exec sql dk = Some d' \<and> update_version v d' = None)"
  shows "failure run = Some PostgresError \<and>
         database run = dk \<and>
         events run = events (run_files exec dir ver msg pre d1) @ ReadFile f # Execute sql #
           (if exec sql dk = None then [Rollback] else [SetVersion v, Rollback]) \<and>
         files_read (events run) = pre @ [f] \<and>
         scripts_run (events run) =
           scripts_run (events (run_files exec dir ver msg pre d1)) @ [sql] \<and>
         (keeps_versions exec \<and> length (version_rows d) \<le> 1 \<longrightarrow>
            (\<exists>w. (pre = [] \<and> w = cur \<or> pre \<noteq> [] \<and> ver (last pre) = Inr w) \<and>
                 migrations (database run) = Some [w]))"
proof -
  let ?pre = "run_files exec dir ver msg pre d1"
  have run: "run = run_files exec dir ver msg files d1"
    using assms(4) migrate_unfold [OF assms(1-3)] downgrade_unfold [OF assms(1-3)] by auto
  have step: "apply_file exec dir ver msg f dk =
     \<lparr>failure = Some PostgresError, database = dk,
      events = ReadFile f # Execute sql #
        (if exec sql dk = None then [Rollback] else [SetVersion v, Rollback])\<rparr>"
    using assms(8-10) by (rule apply_file_rolls_back)
  then have "failure (apply_file exec dir ver msg f (database ?pre)) \<noteq> None"
    using assms(7) by simp
  with assms(6) have "run_files exec dir ver msg (pre @ f # post) d1 =
     (apply_file exec dir ver msg f (database ?pre))
       \<lparr>events := events ?pre @ events (apply_file exec dir ver msg f (database ?pre))\<rparr>"
    by (rule run_files_halts)
  with run assms(5,7) step have r: "run =
     \<lparr>failure = Some PostgresError, database = dk,
      events = events ?pre @ ReadFile f # Execute sql #
        (if exec sql dk = None then [Rollback] else [SetVersion v, Rollback])\<rparr>"
    by simp
  have reads: "files_read (events ?pre) = pre"
    using assms(6) by (rule run_files_reads)
  have ver: "\<exists>w. (pre = [] \<and> w = cur \<or> pre \<noteq> [] \<and> ver (last pre) = Inr w) \<and>
                 migrations dk = Some [w]"
    if "keeps_versions exec" "length (version_rows d) \<le> 1"
  proof -
    from that(2) assms(1) have "migrations d1 = Some [cur]" by (rule get_last_single)
    from run_files_version [OF that(1) this assms(6)] assms(7) show ?thesis by simp
  qed
  from r reads ver show ?thesis
    by (simp add: files_read_append scripts_run_append)
qed

theorem step_failure_rolls_back_and_halts_witness:
  "upgrade_files broken_second 0 3 =
     [''0001_initial_upgrade.sql''] @ ''0002_users_upgrade.sql'' # [''0003_orders_upgrade.sql''] \<and>
   read_file broken_second ''0002_users_upgrade.sql'' = Inr ''boom'' \<and>
   failure (migrate recording_engine broken_second ''0003'' fresh_db) = Some PostgresError \<and>
   database (migrate recording_engine broken_second ''0003'' fresh_db) =
     \<lparr>migrations = Some [''0001''], user = [''create schema'']\<rparr> \<and>
   files_read (events (migrate recording_engine broken_second ''0003'' fresh_db)) =
     [''0001_initial_upgrade.sql'', ''0002_users_upgrade.sql''] \<and>
   downgrade_files broken_second 3 0 =
     [''0003_orders_downgrade.sql''] @ ''0002_users_downgrade.sql'' # [''0001_initial_downgrade.sql''] \<and>
   failure (downgrade recording_engine broken_second ''0000'' (db_at ''0003'')) = Some PostgresError \<and>
   database (downgrade recording_engine broken_second ''0000'' (db_at ''0003'')) =
     \<lparr>migrations = Some [''0002''], user = [''drop orders'']\<rparr> \<and>
   files_read (events (downgrade recording_engine broken_second ''0000'' (db_at ''0003''))) =
     [''0003_orders_downgrade.sql'', ''0002_users_downgrade.sql''] \<and>
   update_version ''0001'' (two_rows\<lparr>user := [''create schema'']\<rparr>) = None \<and>
   failure (migrate recording_engine three_pairs ''0001'' two_rows) = Some PostgresError \<and>
   database (migrate recording_engine three_pairs ''0001'' two_rows) = two_rows \<and>
   events (migrate recording_engine three_pairs ''0001'' two_rows) =
     [ReadFile ''0001_initial_upgrade.sql'', Execute ''create schema'', SetVersion ''0001'', Rollback]"
proof -
  let ?E = "recording_engine"
  let ?D = "broken_second"
  have g2: "get_last_migration_number two_rows = (Inr ''0000'', two_rows)"
    by (simp add: two_rows_def get_last_row)
  have both: "(migrate ?E three_pairs ''0001'' two_rows = migrate ?E three_pairs ''0001'' two_rows \<and>
             upgrade_files three_pairs 0 1 = upgrade_files three_pairs 0 1 \<and>
             upgrade_version = upgrade_version \<and> upgrade_msg = upgrade_msg) \<or>
            (migrate ?E three_pairs ''0001'' two_rows = downgrade ?E three_pairs ''0001'' two_rows \<and>
             upgrade_files three_pairs 0 1 = downgrade_files three_pairs 0 1 \<and>
             upgrade_version = downgrade_version \<and> upgrade_msg = downgrade_msg)"
    by simp
  have f2: "upgrade_files three_pairs 0 1 = [] @ ''0001_initial_upgrade.sql'' # []"
    by code_simp
  have p2: "failure (run_files ?E three_pairs upgrade_version upgrade_msg [] two_rows) = None"
    by simp
  have k2: "two_rows = database (run_files ?E three_pairs upgrade_version upgrade_msg [] two_rows)"
    by simp
  have r2: "read_file three_pairs ''0001_initial_upgrade.sql'' = Inr ''create schema''"
    by code_simp
  have v2: "upgrade_version ''0001_initial_upgrade.sql'' = Inr ''0001''"
    by code_simp
  have e2: "?E ''create schema'' two_rows = Some (two_rows\<lparr>user := [''create schema'']\<rparr>)"
    by (simp add: recording_engine_def two_rows_def)
  have n2: "update_version ''0001'' (two_rows\<lparr>user := [''create schema'']\<rparr>) = None"
    by (simp add: update_version_def two_rows_def)
  have b2: "?E ''create schema'' two_rows = None \<or>
     (\<exists>d'. ?E ''create schema'' two_rows = Some d' \<and> update_version ''0001'' d' = None)"
    using e2 n2 by simp
  note W = step_failure_rolls_back_and_halts [OF g2 py_int_0000 py_int_0001 both f2 p2 k2 r2 v2 b2]
  note w1 = W [THEN conjunct1]
    and w2 = W [THEN conjunct2, THEN conjunct1]
    and w3 = W [THEN conjunct2, THEN conjunct2, THEN conjunct1]
  have w3': "events (migrate ?E three_pairs ''0001'' two_rows) =
     [ReadFile ''0001_initial_upgrade.sql'', Execute ''create schema'', SetVersion ''0001'', Rollback]"
    using w3 e2 by simp
  have g0: "get_last_migration_number fresh_db = (Inr ''0000'', db_at ''0000'')"
    by (simp add: fresh_db_def db_at_def get_last_fresh)
  have g3: "get_last_migration_number (db_at ''0003'') = (Inr ''0003'', db_at ''0003'')"
    by (simp add: db_at_def get_last_row)
  have up: "(migrate ?E ?D ''0003'' fresh_db = migrate ?E ?D ''0003'' fresh_db \<and>
             upgrade_files ?D 0 3 = upgrade_files ?D 0 3 \<and>
             upgrade_version = upgrade_version \<and> upgrade_msg = upgrade_msg) \<or>
            (migrate ?E ?D ''0003'' fresh_db = downgrade ?E ?D ''0003'' fresh_db \<and>
             upgrade_files ?D 0 3 = downgrade_files ?D 0 3 \<and>
             upgrade_version = downgrade_version \<and> upgrade_msg = downgrade_msg)"
    by simp
  have down: "(downgrade ?E ?D ''0000'' (db_at ''0003'') = migrate ?E ?D ''0000'' (db_at ''0003'') \<and>
             downgrade_files ?D 3 0 = upgrade_files ?D 3 0 \<and>
             downgrade_version = upgrade_version \<and> downgrade_msg = upgrade_msg) \<or>
            (downgrade ?E ?D ''0000'' (db_at ''0003'') = downgrade ?E ?D ''0000'' (db_at ''0003'') \<and>
             downgrade_files ?D 3 0 = downgrade_files ?D 3 0 \<and>
             downgrade_version = downgrade_version \<and> downgrade_msg = downgrade_msg)"
    by simp
  have fu: "upgrade_files ?D 0 3 =
     [''0001_initial_upgrade.sql''] @ ''0002_users_upgrade.sql'' # [''0003_orders_upgrade.sql'']"
    by code_simp
  have fd: "downgrade_files ?D 3 0 =
     [''0003_orders_downgrade.sql''] @ ''0002_users_downgrade.sql'' # [''0001_initial_downgrade.sql'']"
    by code_simp
  have pu: "failure (run_files ?E ?D upgrade_version upgrade_msg
              [''0001_initial_upgrade.sql''] (db_at ''0000'')) = None"
    by code_simp
  have pd: "failure (run_files ?E ?D downgrade_version downgrade_msg
              [''0003_orders_downgrade.sql''] (db_at ''0003'')) = None"
    by code_simp
  have ku: "\<lparr>migrations = Some [''0001''], user = [''create schema'']\<rparr> =
     database (run_files ?E ?D upgrade_version upgrade_msg
              [''0001_initial_upgrade.sql''] (db_at ''0000''))"
    by code_simp
  have kd: "\<lparr>migrations = Some [''0002''], user = [''drop orders'']\<rparr> =
     database (run_files ?E ?D downgrade_version downgrade_msg
              [''0003_orders_downgrade.sql''] (db_at ''0003''))"
    by code_simp
  have ru: "read_file ?D ''0002_users_upgrade.sql'' = Inr ''boom''"
    by code_simp
  have rd: "read_file ?D ''0002_users_downgrade.sql'' = Inr ''boom''"
    by code_simp
  have vu: "upgrade_version ''0002_users_upgrade.sql'' = Inr ''0002''"
    by code_simp
  have vd: "downgrade_version ''0002_users_downgrade.sql'' = Inr ''0001''"
    by code_simp
  have bu: "?E ''boom'' \<lparr>migrations = Some [''0001''], user = [''create schema'']\<rparr> = None \<or>
     (\<exists>d'. ?E ''boom'' \<lparr>migrations = Some [''0001''], user = [''create schema'']\<rparr> = Some d' \<and>
        update_version ''0002'' d' = None)"
    by (simp add: recording_engine_def)
  have bd: "?E ''boom'' \<lparr>migrations = Some [''0002''], user = [''drop orders'']\<rparr> = None \<or>
     (\<exists>d'. ?E ''boom'' \<lparr>migrations = Some [''0002''], user = [''drop orders'']\<rparr> = Some d' \<and>
        update_version ''0001'' d' = None)"
    by (simp add: recording_engine_def)
  note U = step_failure_rolls_back_and_halts [OF g0 py_int_0000 py_int_0003 up fu pu ku ru vu bu]
  note D = step_failure_rolls_back_and_halts [OF g3 py_int_0003 py_int_0000 down fd pd kd rd vd bd]
  note u1 = U [THEN conjunct1]
    and u2 = U [THEN conjunct2, THEN conjunct1]
    and u4 = U [THEN conjunct2, THEN conjunct2, THEN conjunct2, THEN conjunct1]
    and d1 = D [THEN conjunct1]
    and d2 = D [THEN conjunct2, THEN conjunct1]
    and d4 = D [THEN conjunct2, THEN conjunct2, THEN conjunct2, THEN conjunct1]
  from u1 u2 u4 d1 d2 d4 fu fd ru n2 w1 w2 w3' show ?thesis
    by simp
qed

subsection \<open>Upgrading\<close>

lemma upgrade_files_range:
  "upgrade_files dir c t = matching_files dir ''_upgrade.sql'' (map int_to_number [c + 1..t])"
  by (simp add: upgrade_files_def py_range_def)







lemma get_last_db_at: "get_last_migration_number (db_at v) = (Inr v, db_at v)"
  by (simp add: db_at_def get_last_row)

lemma get_last_db_with: "get_last_migration_number (db_with v tables) = (Inr v, db_with v tables)"
  by (simp add: db_with_def get_last_row)


subsection \<open>Downgrading\<close>

lemma downgrade_files_range:
  "downgrade_files dir c t =
     matching_files dir ''_downgrade.sql'' (map int_to_number (rev [t + 1..c]))"
  by (simp add: downgrade_files_def py_range_down_def)








subsection \<open>One version up and back\<close>

lemma upgrade_files_one: "upgrade_files dir v (v + 1) = version_files dir ''_upgrade.sql'' (v + 1)"
  by (simp add: upgrade_files_range matching_files_def version_files_def)

lemma downgrade_files_one:
  "downgrade_files dir (v + 1) v = version_files dir ''_downgrade.sql'' (v + 1)"
  by (simp add: downgrade_files_range matching_files_def version_files_def)

text \<open>
  Claim C9 asks of the two scripts of version \<open>V + 1\<close> only that their SQL executes
  without error. That is not enough: a downgrade script that runs without error but
  inserts a row into the table \<open>migrations\<close> makes the version update of its own
  transaction fail on the primary key, the transaction is rolled back and the stored
  version stays \<open>V + 1\<close>. Here \<open>V\<close> is \<open>0001\<close>: both files of \<open>0002\<close> exist once, both
  scripts are accepted by the engine, \<open>migrate\<close> stores \<open>0002\<close>, and \<open>downgrade\<close> ends with
  an error and \<open>0002\<close> still stored.
\<close>

theorem round_trip_broken_by_tampering_script:
  "version_files tampered ''_upgrade.sql'' 2 = [''0002_users_upgrade.sql''] \<and>
   version_files tampered ''_downgrade.sql'' 2 = [''0002_users_downgrade.sql''] \<and>
   tampering_engine ''create users'' \<lparr>migrations = Some [''0001''], user = [''schema'']\<rparr> =
     Some \<lparr>migrations = Some [''0001''], user = [''schema'', ''users'']\<rparr> \<and>
   migrate tampering_engine tampered ''0002'' \<lparr>migrations = Some [''0001''], user = [''schema'']\<rparr> =
     \<lparr>failure = None,
      database = \<lparr>migrations = Some [''0002''], user = [''schema'', ''users'']\<rparr>,
      events = [ReadFile ''0002_users_upgrade.sql'', Execute ''create users'', SetVersion ''0002'',
                Commit, LogInfo ''migration 0002_users_upgrade.sql executed successfully'']\<rparr> \<and>
   tampering_engine ''insert into migrations values (7777)''
       \<lparr>migrations = Some [''0002''], user = [''schema'', ''users'']\<rparr> =
     Some \<lparr>migrations = Some [''0002'', ''7777''], user = [''schema'', ''users'']\<rparr> \<and>
   downgrade tampering_engine tampered ''0001''
       \<lparr>migrations = Some [''0002''], user = [''schema'', ''users'']\<rparr> =
     \<lparr>failure = Some PostgresError,
      database = \<lparr>migrations = Some [''0002''], user = [''schema'', ''users'']\<rparr>,
      events = [ReadFile ''0002_users_downgrade.sql'',
                Execute ''insert into migrations values (7777)'', SetVersion ''0001'',
                Rollback]\<rparr> \<and>
   current_version \<lparr>migrations = Some [''0002''], user = [''schema'', ''users'']\<rparr> = Inr ''0002''"
  by code_simp

text \<open>
  Claim C9, amended. Let the stored version be \<open>V\<close> with \<open>0 \<le> V < 9999\<close>, in a table of at
  most one row, and let the directory hold exactly one upgrade file and exactly one
  downgrade file for version \<open>V + 1\<close>. Suppose the upgrade script runs without error in
  the database \<open>migrate\<close> starts from and the downgrade script runs without error in the
  database \<open>migrate\<close> leaves, and that each leaves the table \<open>migrations\<close> as it found
  it. Then \<open>migrate\<close> to \<open>V + 1\<close> commits the work of the upgrade script with \<open>V + 1\<close>
  stored, and the following \<open>downgrade\<close> to \<open>V\<close> commits the work of the downgrade
  script with \<open>V\<close> stored again, as four digits.
\<close>

theorem upgrade_then_downgrade_restores:
  assumes "length (version_rows d) \<le> 1"
    and "get_last_migration_number d = (Inr cur, d1)"
    and "py_int cur = Some V" and "0 \<le> V" and "V < 9999"
    and "py_int up_target = Some (V + 1)" and "py_int down_target = Some V"
    and "version_files dir ''_upgrade.sql'' (V + 1) = [fu]"
    and "version_files dir ''_downgrade.sql'' (V + 1) = [fd]"
    and "exec (script_of dir fu) d1 = Some eu" and "migrations eu = migrations d1"
    and "exec (script_of dir fd) (eu\<lparr>migrations := Some [int_to_number (V + 1)]\<rparr>) = Some ed"
    and "migrations ed = Some [int_to_number (V + 1)]"
  shows "migrate exec dir up_target d =
       \<lparr>failure = None, database = eu\<lparr>migrations := Some [int_to_number (V + 1)]\<rparr>,
        events = committed_step dir upgrade_msg fu (int_to_number (V + 1))\<rparr> \<and>
     downgrade exec dir down_target (database (migrate exec dir up_target d)) =
       \<lparr>failure = None, database = ed\<lparr>migrations := Some [int_to_number V]\<rparr>,
        events = committed_step dir downgrade_msg fd (int_to_number V)\<rparr> \<and>
     current_version (database (downgrade exec dir down_target
         (database (migrate exec dir up_target d)))) = Inr (int_to_number V) \<and>
     py_int (int_to_number V) = Some V"
proof -
  let ?up = "migrate exec dir up_target d"
  let ?du = "eu\<lparr>migrations := Some [int_to_number (V + 1)]\<rparr>"
  let ?down = "downgrade exec dir down_target ?du"
  have range: "0 \<le> V + 1" "V + 1 \<le> 9999" using assms(4,5) by simp_all
  have d1: "migrations d1 = Some [cur]"
    using assms(1,2) by (rule get_last_single)
  have fu: "fu \<in> set (listdir dir)" "take PLACES fu = int_to_number (V + 1)"
    using set_version_files [OF range, of dir "''_upgrade.sql''"] assms(8) by auto
  have fd: "fd \<in> set (listdir dir)" "take PLACES fd = int_to_number (V + 1)"
    using set_version_files [OF range, of dir "''_downgrade.sql''"] assms(9) by auto
  have len: "length (int_to_number (V + 1)) \<le> 4" "length (int_to_number V) \<le> 4"
    using assms(4,5) by (simp_all add: length_int_to_number PLACES_def)
  have "apply_file exec dir upgrade_version upgrade_msg fu d1 =
     \<lparr>failure = None, database = ?du,
      events = committed_step dir upgrade_msg fu (int_to_number (V + 1))\<rparr>"
    using fu(1) _ len(1) d1 assms(10,11)
    by (rule apply_file_script) (simp add: upgrade_version_def fu(2))
  then have up: "?up = \<lparr>failure = None, database = ?du,
      events = committed_step dir upgrade_msg fu (int_to_number (V + 1))\<rparr>"
    using migrate_unfold [OF assms(2,3,6), of exec dir] assms(8)
    by (simp add: upgrade_files_one Let_def)
  have g: "get_last_migration_number ?du = (Inr (int_to_number (V + 1)), ?du)"
    by (rule get_last_row) simp
  have p: "py_int (int_to_number (V + 1)) = Some (V + 1)"
    using range(1) by (rule py_int_int_to_number)
  have pv: "previous_version fd = int_to_number V"
    using fd(2) p by (simp add: previous_version_def)
  have dv: "downgrade_version fd = Inr (int_to_number V)"
    using fd(2) p by (simp add: downgrade_version_def)
  have "apply_file exec dir downgrade_version downgrade_msg fd ?du =
     \<lparr>failure = None, database = ed\<lparr>migrations := Some [int_to_number V]\<rparr>,
      events = committed_step dir downgrade_msg fd (int_to_number V)\<rparr>"
    using fd(1) dv len(2) _ assms(12)
    by (rule apply_file_script) (simp_all add: assms(13))
  then have down: "?down = \<lparr>failure = None, database = ed\<lparr>migrations := Some [int_to_number V]\<rparr>,
      events = committed_step dir downgrade_msg fd (int_to_number V)\<rparr>"
    using downgrade_unfold [OF g p assms(7), of exec dir] assms(9)
    by (simp add: downgrade_files_one Let_def)
  have "current_version (ed\<lparr>migrations := Some [int_to_number V]\<rparr>) = Inr (int_to_number V)"
    by (simp add: current_version_def get_last_row)
  with up down py_int_int_to_number [OF assms(4)] show ?thesis
    by simp
qed

theorem upgrade_then_downgrade_restores_witness:
  "get_last_migration_number (db_with ''0001'' [''schema'']) =
     (Inr ''0001'', db_with ''0001'' [''schema'']) \<and>
   py_int ''0001'' = Some 1 \<and> py_int ''0002'' = Some (1 + 1) \<and>
   version_files three_pairs ''_upgrade.sql'' (1 + 1) = [''0002_users_upgrade.sql''] \<and>
   version_files three_pairs ''_downgrade.sql'' (1 + 1) = [''0002_users_downgrade.sql''] \<and>
   table_engine (script_of three_pairs ''0002_users_upgrade.sql'') (db_with ''0001'' [''schema'']) =
     Some (db_with ''0001'' [''schema'', ''users'']) \<and>
   table_engine (script_of three_pairs ''0002_users_downgrade.sql'')
       (db_with ''0002'' [''schema'', ''users'']) = Some (db_with ''0002'' [''schema'']) \<and>
   database (migrate table_engine three_pairs ''0002'' (db_with ''0001'' [''schema''])) =
     db_with ''0002'' [''schema'', ''users''] \<and>
   failure (downgrade table_engine three_pairs ''0001'' (db_with ''0002'' [''schema'', ''users''])) =
     None \<and>
   database (downgrade table_engine three_pairs ''0001'' (db_with ''0002'' [''schema'', ''users''])) =
     db_with ''0001'' [''schema'']"
proof -
  let ?d = "db_with ''0001'' [''schema'']"
  have one: "length (version_rows ?d) \<le> 1"
    by (simp add: version_rows_def db_with_def)
  have n1: "(0::int) \<le> 1" and n2: "(1::int) < 9999"
    by simp_all
  have p2: "py_int ''0002'' = Some (1 + 1)"
    using py_int_0002 by simp
  have vu: "version_files three_pairs ''_upgrade.sql'' (1 + 1) = [''0002_users_upgrade.sql'']"
    by code_simp
  have vd: "version_files three_pairs ''_downgrade.sql'' (1 + 1) = [''0002_users_downgrade.sql'']"
    by code_simp
  have i1: "int_to_number 1 = ''0001''" and i2: "int_to_number 2 = ''0002''"
    by code_simp+
  have eu: "table_engine (script_of three_pairs ''0002_users_upgrade.sql'') ?d =
      Some (db_with ''0001'' [''schema'', ''users''])"
    by code_simp
  have ku: "migrations (db_with ''0001'' [''schema'', ''users'']) = migrations ?d"
    by (simp add: db_with_def)
  have du: "(db_with ''0001'' [''schema'', ''users''])\<lparr>migrations := Some [int_to_number (1 + 1)]\<rparr> =
      db_with ''0002'' [''schema'', ''users'']"
    by (simp add: db_with_def i2)
  have ed: "table_engine (script_of three_pairs ''0002_users_downgrade.sql'')
      ((db_with ''0001'' [''schema'', ''users''])\<lparr>migrations := Some [int_to_number (1 + 1)]\<rparr>) =
      Some (db_with ''0002'' [''schema''])"
    unfolding du by code_simp
  have kd: "migrations (db_with ''0002'' [''schema'']) = Some [int_to_number (1 + 1)]"
    by (simp add: db_with_def i2)
  have dd: "(db_with ''0002'' [''schema''])\<lparr>migrations := Some [int_to_number 1]\<rparr> = ?d"
    by (simp add: db_with_def i1)
  note T = upgrade_then_downgrade_restores [OF one get_last_db_with py_int_0001 n1 n2 p2
      py_int_0001 vu vd eu ku ed kd]
  note t1 = T [THEN conjunct1] and t2 = T [THEN conjunct2, THEN conjunct1]
  have m: "database (migrate table_engine three_pairs ''0002'' ?d) =
      db_with ''0002'' [''schema'', ''users'']"
    using t1 du by simp
  have w: "downgrade table_engine three_pairs ''0001'' (db_with ''0002'' [''schema'', ''users'']) =
      \<lparr>failure = None, database = ?d,
       events = committed_step three_pairs downgrade_msg ''0002_users_downgrade.sql''
                  (int_to_number 1)\<rparr>"
    using t2 unfolding m dd .
  have ed': "table_engine (script_of three_pairs ''0002_users_downgrade.sql'')
       (db_with ''0002'' [''schema'', ''users'']) = Some (db_with ''0002'' [''schema''])"
    using ed unfolding du .
  from get_last_db_with [of "''0001''" "[''schema'']"] py_int_0001 p2 vu vd eu ed' m w
  show ?thesis
    by simp
qed

subsection \<open>Versions without a file\<close>







subsection \<open>Generating the next name\<close>

lemma file_keys_parsed:
  "\<forall>f \<in> set files. py_int (take PLACES f) = Some (k f) \<Longrightarrow>
   file_keys files = Some (map (\<lambda>f. (f, k f)) files)"
  by (induction files) simp_all

lemma file_keys_unparsed:
  "f \<in> set files \<Longrightarrow> py_int (take PLACES f) = None \<Longrightarrow> file_keys files = None"
  by (induction files) (auto split: option.splits)

lemma max_by_key_max:
  "max_by_key best (k best) (map (\<lambda>f. (f, k f)) rest) \<in> set (best # rest) \<and>
   k (max_by_key best (k best) (map (\<lambda>f. (f, k f)) rest)) = Max (k ` set (best # rest))"
proof (induction rest arbitrary: best)
  case Nil
  show ?case by simp
next
  case (Cons f rest)
  show ?case
  proof (cases "k f > k best")
    case True
    have "k f \<le> Max (insert (k f) (k ` set rest))"
      by (rule Max_ge) simp_all
    with True have "k best \<le> Max (insert (k f) (k ` set rest))"
      by linarith
    then have "Max (k ` set (best # f # rest)) = Max (k ` set (f # rest))"
      by (simp add: max_absorb2)
    with True Cons.IH [of f] show ?thesis by auto
  next
    case False
    have "k best \<le> Max (insert (k best) (k ` set rest))"
      by (rule Max_ge) simp_all
    with False have "k f \<le> Max (insert (k best) (k ` set rest))"
      by linarith
    then have "Max (insert (k f) (insert (k best) (k ` set rest))) =
        Max (insert (k best) (k ` set rest))"
      by (simp add: max_absorb2)
    then have "Max (k ` set (best # f # rest)) = Max (k ` set (best # rest))"
      by (simp add: insert_commute)
    with False Cons.IH [of best] show ?thesis by auto
  qed
qed

lemma generate_name_empty:
  "filter (endswith ''.sql'') (listdir dir) = [] \<Longrightarrow>
   generate_name now migration_name dir = Inr ''0001_initial''"
  by (simp add: generate_name_def)

lemma generate_name_next:
  assumes "filter (endswith ''.sql'') (listdir dir) \<noteq> []"
    and "\<forall>f \<in> set (filter (endswith ''.sql'') (listdir dir)). py_int (take PLACES f) = Some (k f)"
  shows "generate_name now migration_name dir =
     (if Max (k ` set (filter (endswith ''.sql'') (listdir dir))) + 1 > 9999
      then Inl TooManyMigrations
      else Inr (int_to_number (Max (k ` set (filter (endswith ''.sql'') (listdir dir))) + 1) @ ''_'' @
             (case migration_name of
                None \<Rightarrow> ''auto_'' @ now
              | Some n \<Rightarrow> if n = [] then ''auto_'' @ now else replace_spaces n)))"
proof -
  let ?files = "filter (endswith ''.sql'') (listdir dir)"
  from assms(1) obtain f rest where fr: "?files = f # rest"
    by (cases ?files) auto
  let ?prev = "max_by_key f (k f) (map (\<lambda>f. (f, k f)) rest)"
  have keys: "file_keys ?files = Some ((f, k f) # map (\<lambda>f. (f, k f)) rest)"
    using file_keys_parsed [OF assms(2)] fr by simp
  have prev: "?prev \<in> set ?files" "k ?prev = Max (k ` set ?files)"
    using max_by_key_max [of f k rest] fr by simp_all
  with assms(2) have "py_int (take PLACES ?prev) = Some (Max (k ` set ?files))"
    by auto
  with keys assms(1) show ?thesis
    by (simp add: generate_name_def Let_def)
qed

lemma int_to_number_1: "int_to_number 1 = ''0001''"
  by code_simp

lemma take_version_prefix:
  "length (int_to_number n) = PLACES \<Longrightarrow> take PLACES (int_to_number n @ rest) = int_to_number n"
  by simp

lemma endswith_sql_upgrade: "endswith ''.sql'' (x @ ''_upgrade.sql'')"
  by (simp add: endswith_def)

lemma endswith_sql_downgrade: "endswith ''.sql'' (x @ ''_downgrade.sql'')"
  by (simp add: endswith_def)

lemma not_listed_without_scripts:
  "filter (endswith ''.sql'') (listdir dir) = [] \<Longrightarrow> endswith ''.sql'' f \<Longrightarrow>
   f \<notin> set (listdir dir)"
  by (auto simp: filter_empty_conv)

lemma not_listed_above_maximum:
  assumes "\<forall>f \<in> set (filter (endswith ''.sql'') (listdir dir)). py_int (take PLACES f) = Some (k f)"
    and "Max (k ` set (filter (endswith ''.sql'') (listdir dir))) = M" and "0 \<le> M" and "M < 9999"
    and "endswith ''.sql'' (int_to_number (M + 1) @ rest)"
  shows "int_to_number (M + 1) @ rest \<notin> set (listdir dir)"
proof
  let ?files = "filter (endswith ''.sql'') (listdir dir)"
  let ?f = "int_to_number (M + 1) @ rest"
  assume "?f \<in> set (listdir dir)"
  with assms(5) have f: "?f \<in> set ?files" by simp
  have "length (int_to_number (M + 1)) = PLACES"
    using assms(3,4) by (simp add: length_int_to_number)
  then have "take PLACES ?f = int_to_number (M + 1)" by simp
  moreover have "py_int (int_to_number (M + 1)) = Some (M + 1)"
    using assms(3) by (simp add: py_int_int_to_number)
  ultimately have "k ?f = M + 1" using assms(1) f by auto
  moreover have "k ?f \<le> Max (k ` set ?files)"
    using f by (intro Max_ge) auto
  ultimately show False using assms(2) by simp
qed

lemma is_digit_not_path_char: "is_digit c \<Longrightarrow> c \<noteq> CHR 0x00 \<and> c \<noteq> CHR ''/''"
  by (auto simp: is_digit_def)

lemma version_chars:
  assumes "0 \<le> n"
  shows "CHR 0x00 \<notin> set (int_to_number n)" and "CHR ''/'' \<notin> set (int_to_number n)"
  using int_to_number_digits(2) [OF assms] is_digit_not_path_char by blast+

lemma open_append_new:
  assumes "CHR 0x00 \<notin> set name" and "CHR ''/'' \<notin> set name" and "length name \<le> NAME_MAX"
    and "name \<notin> set (listdir dir)"
  shows "open_append name dir = Inr (dir @ [(name, [])])"
  using assms by (simp add: open_append_def touch_def)

lemma generate_creates_pair:
  assumes "generate_name now migration_name dir = Inr name"
    and "CHR 0x00 \<notin> set name" and "CHR ''/'' \<notin> set name" and "length name + 14 \<le> NAME_MAX"
    and "name @ ''_upgrade.sql'' \<notin> set (listdir dir)"
    and "name @ ''_downgrade.sql'' \<notin> set (listdir dir)"
  shows "generate now migration_name dir =
     (None, dir @ [(name @ ''_upgrade.sql'', []), (name @ ''_downgrade.sql'', [])],
      [LogInfo ''migration file generated successfully''])"
proof -
  have up: "open_append (name @ ''_upgrade.sql'') dir = Inr (dir @ [(name @ ''_upgrade.sql'', [])])"
    using assms(2-5) by (intro open_append_new) simp_all
  have "name @ ''_downgrade.sql'' \<notin> set (listdir (dir @ [(name @ ''_upgrade.sql'', [])]))"
    using assms(6) by (simp add: listdir_def)
  then have "open_append (name @ ''_downgrade.sql'') (dir @ [(name @ ''_upgrade.sql'', [])]) =
      Inr ((dir @ [(name @ ''_upgrade.sql'', [])]) @ [(name @ ''_downgrade.sql'', [])])"
    using assms(2-4) by (intro open_append_new) simp_all
  with up assms(1) show ?thesis
    by (simp add: generate_def)
qed

text \<open>
  Claim C6. When no file of the directory ends in \<open>.sql\<close>, the generated name is
  \<open>0001_initial\<close>, whatever label is supplied, and \<open>generate\<close> adds the two empty files
  \<open>0001_initial_upgrade.sql\<close> and \<open>0001_initial_downgrade.sql\<close> to the directory; in the
  empty directory these are its only files. When the \<open>.sql\<close> files all start with a
  numeral and the largest is \<open>M\<close> with \<open>0 \<le> M < 9999\<close>, the generated name is \<open>M + 1\<close>
  rendered with four digits, an underscore and the label: its first four characters
  are that rendering for every label, and they read back as \<open>M + 1\<close>. With a label
  that \<open>open\<close> accepts (no NUL, no slash, at most 236 characters, so that both file names
  fit the file system) \<open>generate\<close> then adds exactly the two empty files of that name to
  the directory; with a label that contains a slash it fails at the first \<open>open\<close> and
  leaves the directory as it is; with a label too long for the second file name only
  it leaves the upgrade file behind, and with a longer one it creates nothing.
\<close>

theorem generate_names_next_version:
  "(filter (endswith ''.sql'') (listdir dir) = [] \<longrightarrow>
      generate_name now migration_name dir = Inr ''0001_initial'' \<and>
      generate now migration_name dir =
        (None,
         dir @ [(''0001_initial_upgrade.sql'', []), (''0001_initial_downgrade.sql'', [])],
         [LogInfo ''migration file generated successfully''])) \<and>
   generate now migration_name [] =
     (None,
      [(''0001_initial_upgrade.sql'', []), (''0001_initial_downgrade.sql'', [])],
      [LogInfo ''migration file generated successfully'']) \<and>
   (filter (endswith ''.sql'') (listdir dir) \<noteq> [] \<and>
    (\<forall>f \<in> set (filter (endswith ''.sql'') (listdir dir)). py_int (take PLACES f) = Some (k f)) \<and>
    Max (k ` set (filter (endswith ''.sql'') (listdir dir))) = M \<and> 0 \<le> M \<and> M < 9999 \<longrightarrow>
      generate_name now migration_name dir =
        Inr (int_to_number (M + 1) @ ''_'' @ supplied_label now migration_name) \<and>
      supplied_label now migration_name =
        (case migration_name of
           None \<Rightarrow> ''auto_'' @ now
         | Some n \<Rightarrow> if n = [] then ''auto_'' @ now else replace_spaces n) \<and>
      length (int_to_number (M + 1)) = 4 \<and>
      py_int (int_to_number (M + 1)) = Some (M + 1) \<and>
      (\<forall>fn. generate_name now migration_name dir = Inr fn \<longrightarrow>
         take PLACES fn = int_to_number (M + 1)) \<and>
      (CHR 0x00 \<notin> set (supplied_label now migration_name) \<and>
       CHR ''/'' \<notin> set (supplied_label now migration_name) \<and>
       length (supplied_label now migration_name) \<le> 236 \<longrightarrow>
         generate now migration_name dir =
           (None,
            dir @ [((int_to_number (M + 1) @ ''_'' @ supplied_label now migration_name) @
                      ''_upgrade.sql'', []),
                   ((int_to_number (M + 1) @ ''_'' @ supplied_label now migration_name) @
                      ''_downgrade.sql'', [])],
            [LogInfo ''migration file generated successfully''])) \<and>
      (CHR 0x00 \<notin> set (supplied_label now migration_name) \<and>
       CHR ''/'' \<in> set (supplied_label now migration_name) \<longrightarrow>
         generate now migration_name dir = (Some FileNotFoundError, dir, [])) \<and>
      (CHR 0x00 \<notin> set (supplied_label now migration_name) \<and>
       CHR ''/'' \<notin> set (supplied_label now migration_name) \<and>
       236 < length (supplied_label now migration_name) \<and>
       length (supplied_label now migration_name) \<le> 238 \<longrightarrow>
         generate now migration_name dir =
           (Some OSError,
            dir @ [((int_to_number (M + 1) @ ''_'' @ supplied_label now migration_name) @
                      ''_upgrade.sql'', [])],
            [])) \<and>
      (CHR 0x00 \<notin> set (supplied_label now migration_name) \<and>
       CHR ''/'' \<notin> set (supplied_label now migration_name) \<and>
       238 < length (supplied_label now migration_name) \<longrightarrow>
         generate now migration_name dir = (Some OSError, dir, [])))"
proof -
  have no_script: "generate_name now migration_name dir = Inr ''0001_initial'' \<and>
      generate now migration_name dir =
        (None,
         dir @ [(''0001_initial_upgrade.sql'', []), (''0001_initial_downgrade.sql'', [])],
         [LogInfo ''migration file generated successfully''])"
    if e: "filter (endswith ''.sql'') (listdir dir) = []"
  proof -
    have name: "generate_name now migration_name dir = Inr ''0001_initial''"
      using e by (rule generate_name_empty)
    have "''0001_initial'' @ ''_upgrade.sql'' \<notin> set (listdir dir)"
      using e endswith_sql_upgrade by (rule not_listed_without_scripts)
    moreover have "''0001_initial'' @ ''_downgrade.sql'' \<notin> set (listdir dir)"
      using e endswith_sql_downgrade by (rule not_listed_without_scripts)
    ultimately have "generate now migration_name dir =
       (None, dir @ [(''0001_initial'' @ ''_upgrade.sql'', []),
                     (''0001_initial'' @ ''_downgrade.sql'', [])],
        [LogInfo ''migration file generated successfully''])"
      using name by (intro generate_creates_pair) (simp_all add: NAME_MAX_def)
    with name show ?thesis by simp
  qed
  have scenario: "generate now migration_name [] =
     (None,
      [(''0001_initial_upgrade.sql'', []), (''0001_initial_downgrade.sql'', [])],
      [LogInfo ''migration file generated successfully''])"
    by (simp add: generate_def generate_name_def open_append_def touch_def listdir_def NAME_MAX_def)
  have later: "generate_name now migration_name dir =
        Inr (int_to_number (M + 1) @ ''_'' @ supplied_label now migration_name) \<and>
      supplied_label now migration_name =
        (case migration_name of
           None \<Rightarrow> ''auto_'' @ now
         | Some n \<Rightarrow> if n = [] then ''auto_'' @ now else replace_spaces n) \<and>
      length (int_to_number (M + 1)) = 4 \<and>
      py_int (int_to_number (M + 1)) = Some (M + 1) \<and>
      (\<forall>fn. generate_name now migration_name dir = Inr fn \<longrightarrow>
         take PLACES fn = int_to_number (M + 1)) \<and>
      (CHR 0x00 \<notin> set (supplied_label now migration_name) \<and>
       CHR ''/'' \<notin> set (supplied_label now migration_name) \<and>
       length (supplied_label now migration_name) \<le> 236 \<longrightarrow>
         generate now migration_name dir =
           (None,
            dir @ [((int_to_number (M + 1) @ ''_'' @ supplied_label now migration_name) @
                      ''_upgrade.sql'', []),
                   ((int_to_number (M + 1) @ ''_'' @ supplied_label now migration_name) @
                      ''_downgrade.sql'', [])],
            [LogInfo ''migration file generated successfully''])) \<and>
      (CHR 0x00 \<notin> set (supplied_label now migration_name) \<and>
       CHR ''/'' \<in> set (supplied_label now migration_name) \<longrightarrow>
         generate now migration_name dir = (Some FileNotFoundError, dir, [])) \<and>
      (CHR 0x00 \<notin> set (supplied_label now migration_name) \<and>
       CHR ''/'' \<notin> set (supplied_label now migration_name) \<and>
       236 < length (supplied_label now migration_name) \<and>
       length (supplied_label now migration_name) \<le> 238 \<longrightarrow>
         generate now migration_name dir =
           (Some OSError,
            dir @ [((int_to_number (M + 1) @ ''_'' @ supplied_label now migration_name) @
                      ''_upgrade.sql'', [])],
            [])) \<and>
      (CHR 0x00 \<notin> set (supplied_label now migration_name) \<and>
       CHR ''/'' \<notin> set (supplied_label now migration_name) \<and>
       238 < length (supplied_label now migration_name) \<longrightarrow>
         generate now migration_name dir = (Some OSError, dir, []))"
    if h: "filter (endswith ''.sql'') (listdir dir) \<noteq> [] \<and>
      (\<forall>f \<in> set (filter (endswith ''.sql'') (listdir dir)). py_int (take PLACES f) = Some (k f)) \<and>
      Max (k ` set (filter (endswith ''.sql'') (listdir dir))) = M \<and> 0 \<le> M \<and> M < 9999"
  proof -
    let ?label = "supplied_label now migration_name"
    let ?name = "int_to_number (M + 1) @ ''_'' @ ?label"
    from h have ne: "filter (endswith ''.sql'') (listdir dir) \<noteq> []"
      and ks: "\<forall>f \<in> set (filter (endswith ''.sql'') (listdir dir)).
                 py_int (take PLACES f) = Some (k f)"
      and M: "Max (k ` set (filter (endswith ''.sql'') (listdir dir))) = M" "0 \<le> M" "M < 9999"
      by simp_all
    have len: "length (int_to_number (M + 1)) = PLACES"
      using M by (simp add: length_int_to_number)
    have name: "generate_name now migration_name dir = Inr ?name"
      using generate_name_next [OF ne ks, of now migration_name] M
      by (simp add: supplied_label_def)
    have pre: "take PLACES fn = int_to_number (M + 1)"
      if "generate_name now migration_name dir = Inr fn" for fn
      using that name len by auto
    have parses: "py_int (int_to_number (M + 1)) = Some (M + 1)"
      using M by (simp add: py_int_int_to_number)
    have chars: "CHR 0x00 \<notin> set (int_to_number (M + 1))" "CHR ''/'' \<notin> set (int_to_number (M + 1))"
      using M by (simp_all add: version_chars)
    have created: "generate now migration_name dir =
           (None, dir @ [(?name @ ''_upgrade.sql'', []), (?name @ ''_downgrade.sql'', [])],
            [LogInfo ''migration file generated successfully''])"
      if ok: "CHR 0x00 \<notin> set ?label \<and> CHR ''/'' \<notin> set ?label \<and> length ?label \<le> 236"
    proof -
      have "?name @ ''_upgrade.sql'' \<notin> set (listdir dir)"
        using not_listed_above_maximum [OF ks M, of "''_'' @ ?label @ ''_upgrade.sql''"]
          endswith_sql_upgrade [of ?name]
        by simp
      moreover have "?name @ ''_downgrade.sql'' \<notin> set (listdir dir)"
        using not_listed_above_maximum [OF ks M, of "''_'' @ ?label @ ''_downgrade.sql''"]
          endswith_sql_downgrade [of ?name]
        by simp
      moreover have "CHR 0x00 \<notin> set ?name" "CHR ''/'' \<notin> set ?name"
        using ok chars by simp_all
      moreover have "length ?name + 14 \<le> NAME_MAX"
        using ok len by (simp add: NAME_MAX_def PLACES_def)
      ultimately show ?thesis
        using name by (intro generate_creates_pair)
    qed
    have refused: "generate now migration_name dir = (Some FileNotFoundError, dir, [])"
      if bad: "CHR 0x00 \<notin> set ?label \<and> CHR ''/'' \<in> set ?label"
    proof -
      have "open_append (?name @ ''_upgrade.sql'') dir = Inl FileNotFoundError"
        using bad chars by (simp add: open_append_def)
      with name show ?thesis by (simp add: generate_def)
    qed
    have half: "generate now migration_name dir =
           (Some OSError, dir @ [(?name @ ''_upgrade.sql'', [])], [])"
      if long: "CHR 0x00 \<notin> set ?label \<and> CHR ''/'' \<notin> set ?label \<and>
        236 < length ?label \<and> length ?label \<le> 238"
    proof -
      have "?name @ ''_upgrade.sql'' \<notin> set (listdir dir)"
        using not_listed_above_maximum [OF ks M, of "''_'' @ ?label @ ''_upgrade.sql''"]
          endswith_sql_upgrade [of ?name]
        by simp
      moreover have "CHR 0x00 \<notin> set (?name @ ''_upgrade.sql'')"
        "CHR ''/'' \<notin> set (?name @ ''_upgrade.sql'')"
        using long chars by simp_all
      moreover have "length (?name @ ''_upgrade.sql'') \<le> NAME_MAX"
        using long len by (simp add: NAME_MAX_def PLACES_def)
      ultimately have up: "open_append (?name @ ''_upgrade.sql'') dir =
          Inr (dir @ [(?name @ ''_upgrade.sql'', [])])"
        by (intro open_append_new)
      have "length (?name @ ''_downgrade.sql'') > NAME_MAX"
        using long len by (simp add: NAME_MAX_def PLACES_def)
      moreover have "CHR 0x00 \<notin> set (?name @ ''_downgrade.sql'')"
        "CHR ''/'' \<notin> set (?name @ ''_downgrade.sql'')"
        using long chars by simp_all
      ultimately have "open_append (?name @ ''_downgrade.sql'')
          (dir @ [(?name @ ''_upgrade.sql'', [])]) = Inl OSError"
        by (simp add: open_append_def)
      with up name show ?thesis by (simp add: generate_def)
    qed
    have too_long: "generate now migration_name dir = (Some OSError, dir, [])"
      if long: "CHR 0x00 \<notin> set ?label \<and> CHR ''/'' \<notin> set ?label \<and> 238 < length ?label"
    proof -
      have "length (?name @ ''_upgrade.sql'') > NAME_MAX"
        using long len by (simp add: NAME_MAX_def PLACES_def)
      moreover have "CHR 0x00 \<notin> set (?name @ ''_upgrade.sql'')"
        "CHR ''/'' \<notin> set (?name @ ''_upgrade.sql'')"
        using long chars by simp_all
      ultimately have "open_append (?name @ ''_upgrade.sql'') dir = Inl OSError"
        by (simp add: open_append_def)
      with name show ?thesis by (simp add: generate_def)
    qed
    have lab: "?label =
        (case migration_name of
           None \<Rightarrow> ''auto_'' @ now
         | Some n \<Rightarrow> if n = [] then ''auto_'' @ now else replace_spaces n)"
      by (simp add: supplied_label_def)
    have len4: "length (int_to_number (M + 1)) = 4"
      using len by (simp add: PLACES_def)
    from name lab len4 parses pre created refused half too_long show ?thesis
      by blast
  qed
  from no_script scenario later show ?thesis
    by blast
qed

lemma up_to_42_keys:
  "\<forall>f \<in> set (filter (endswith ''.sql'') (listdir up_to_42)). py_int (take PLACES f) = Some (file_key f)"
  by code_simp

lemma up_to_42_max: "Max (file_key ` set (filter (endswith ''.sql'') (listdir up_to_42))) = 42"
  by code_simp

theorem generate_names_next_version_witness:
  "filter (endswith ''.sql'') (listdir [(''notes.txt'', ''not a script'')]) = [] \<and>
   generate ''20240131_0900'' (Some ''add users'') [(''notes.txt'', ''not a script'')] =
     (None,
      [(''notes.txt'', ''not a script''), (''0001_initial_upgrade.sql'', []),
       (''0001_initial_downgrade.sql'', [])],
      [LogInfo ''migration file generated successfully'']) \<and>
   filter (endswith ''.sql'') (listdir up_to_42) \<noteq> [] \<and>
   Max (file_key ` set (filter (endswith ''.sql'') (listdir up_to_42))) = 42 \<and>
   generate_name ''20240131_0900'' (Some ''add users'') up_to_42 = Inr ''0043_add_users'' \<and>
   generate_name ''20240131_0900'' None up_to_42 = Inr ''0043_auto_20240131_0900'' \<and>
   py_int ''0043'' = Some 43 \<and>
   generate ''20240131_0900'' (Some ''add users'') up_to_42 =
     (None,
      up_to_42 @ [(''0043_add_users_upgrade.sql'', []), (''0043_add_users_downgrade.sql'', [])],
      [LogInfo ''migration file generated successfully'']) \<and>
   generate ''20240131_0900'' (Some ''fix/users'') up_to_42 = (Some FileNotFoundError, up_to_42, [])"
proof -
  let ?now = "''20240131_0900''"
  have e: "filter (endswith ''.sql'') (listdir [(''notes.txt'', ''not a script'')]) = []"
    by code_simp
  have ne: "filter (endswith ''.sql'') (listdir up_to_42) \<noteq> []"
    by code_simp
  have i: "int_to_number 43 = ''0043''"
    by code_simp
  have l1: "supplied_label ?now (Some ''add users'') = ''add_users''"
    by code_simp
  have l2: "supplied_label ?now None = ''auto_20240131_0900''"
    by code_simp
  have l3: "supplied_label ?now (Some ''fix/users'') = ''fix/users''"
    by code_simp
  have h: "filter (endswith ''.sql'') (listdir up_to_42) \<noteq> [] \<and>
    (\<forall>f \<in> set (filter (endswith ''.sql'') (listdir up_to_42)).
        py_int (take PLACES f) = Some (file_key f)) \<and>
    Max (file_key ` set (filter (endswith ''.sql'') (listdir up_to_42))) = 42 \<and>
    (0::int) \<le> 42 \<and> (42::int) < 9999"
    using ne up_to_42_keys up_to_42_max by simp
  have ok: "CHR 0x00 \<notin> set (supplied_label ?now (Some ''add users'')) \<and>
       CHR ''/'' \<notin> set (supplied_label ?now (Some ''add users'')) \<and>
       length (supplied_label ?now (Some ''add users'')) \<le> 236"
    unfolding l1 by simp
  have bad: "CHR 0x00 \<notin> set (supplied_label ?now (Some ''fix/users'')) \<and>
       CHR ''/'' \<in> set (supplied_label ?now (Some ''fix/users''))"
    unfolding l3 by simp
  note A = generate_names_next_version [THEN conjunct1, rule_format, OF e,
      of ?now "Some ''add users''", THEN conjunct2]
  note B = generate_names_next_version [THEN conjunct2, THEN conjunct2, rule_format, OF h,
      of ?now "Some ''add users''"]
  note C = generate_names_next_version [THEN conjunct2, THEN conjunct2, rule_format, OF h,
      of ?now None]
  note D = generate_names_next_version [THEN conjunct2, THEN conjunct2, rule_format, OF h,
      of ?now "Some ''fix/users''"]
  note b1 = B [THEN conjunct1]
    and b4 = B [THEN conjunct2, THEN conjunct2, THEN conjunct2, THEN conjunct1]
    and b6 = B [THEN conjunct2, THEN conjunct2, THEN conjunct2, THEN conjunct2, THEN conjunct2,
      THEN conjunct1, rule_format, OF ok]
    and c1 = C [THEN conjunct1]
    and d7 = D [THEN conjunct2, THEN conjunct2, THEN conjunct2, THEN conjunct2, THEN conjunct2,
      THEN conjunct2, THEN conjunct1, rule_format, OF bad]
  have a': "generate ?now (Some ''add users'') [(''notes.txt'', ''not a script'')] =
     (None,
      [(''notes.txt'', ''not a script''), (''0001_initial_upgrade.sql'', []),
       (''0001_initial_downgrade.sql'', [])],
      [LogInfo ''migration file generated successfully''])"
    using A by simp
  have b1': "generate_name ?now (Some ''add users'') up_to_42 = Inr ''0043_add_users''"
    using b1 unfolding l1 by (simp add: i)
  have c1': "generate_name ?now None up_to_42 = Inr ''0043_auto_20240131_0900''"
    using c1 unfolding l2 by (simp add: i)
  have b4': "py_int ''0043'' = Some 43"
    using b4 by (simp add: i)
  have b6': "generate ?now (Some ''add users'') up_to_42 =
     (None,
      up_to_42 @ [(''0043_add_users_upgrade.sql'', []), (''0043_add_users_downgrade.sql'', [])],
      [LogInfo ''migration file generated successfully''])"
    using b6 unfolding l1 by (simp add: i)
  from e a' ne up_to_42_max b1' c1' b4' b6' d7 show ?thesis
    by (intro conjI)
qed

subsection \<open>The range of a four-character numeral\<close>

lemma digit_val_range: "is_digit c \<Longrightarrow> 0 \<le> digit_val c \<and> digit_val c \<le> 9"
  by (auto simp: is_digit_def digit_val_def)

lemma digits_acc_bound:
  "0 \<le> a \<Longrightarrow> digits_acc a s = Some r \<Longrightarrow> 0 \<le> r \<and> r < (a + 1) * 10 ^ length s"
proof (induction s arbitrary: a)
  case Nil
  then show ?case by simp
next
  case (Cons c cs)
  show ?case
  proof (cases "is_digit c")
    case True
    with Cons.prems have rec: "digits_acc (10 * a + digit_val c) cs = Some r" by simp
    from True have dv: "0 \<le> digit_val c" "digit_val c \<le> 9"
      by (simp_all add: digit_val_range)
    with Cons.prems(1) have "0 \<le> 10 * a + digit_val c" by simp
    from Cons.IH [OF this rec] have r: "0 \<le> r" "r < (10 * a + digit_val c + 1) * 10 ^ length cs"
      by simp_all
    have "(10 * a + digit_val c + 1) * 10 ^ length cs \<le> (10 * a + 10) * (10::int) ^ length cs"
      using dv by (intro mult_right_mono) simp_all
    with r(2) have "r < (10 * a + 10) * 10 ^ length cs" by linarith
    also have "\<dots> = (a + 1) * 10 ^ length (c # cs)" by (simp add: algebra_simps)
    finally show ?thesis using r(1) by simp
  next
    case False
    with Cons.prems have rec: "digits_acc a cs = Some r"
      by (auto split: if_splits list.splits)
    from Cons.IH [OF Cons.prems(1) rec] have r: "0 \<le> r" "r < (a + 1) * 10 ^ length cs"
      by simp_all
    have "(a + 1) * 10 ^ length cs \<le> (a + 1) * (10 * (10::int) ^ length cs)"
      using Cons.prems(1) by (intro mult_left_mono) simp_all
    with r(2) have "r < (a + 1) * (10 * 10 ^ length cs)" by linarith
    then show ?thesis using r(1) by simp
  qed
qed

lemma py_digits_bound: "py_digits s = Some r \<Longrightarrow> 0 \<le> r \<and> r < 10 ^ length s"
  using digits_acc_bound [of 0 s r]
  by (auto simp: py_digits_def split: list.splits if_splits)

lemma length_strip: "length (strip s) \<le> length s"
proof -
  have "length (strip s) \<le> length (dropWhile py_isspace s)"
    unfolding strip_def using length_dropWhile_le [of py_isspace "rev (dropWhile py_isspace s)"]
    by simp
  also have "\<dots> \<le> length s" by (rule length_dropWhile_le)
  finally show ?thesis .
qed

lemma py_int_four_chars:
  assumes "py_int s = Some p" and "length s \<le> 4"
  shows "- 999 \<le> p \<and> p \<le> 9999"
proof -
  from assms(1) obtain c cs where st: "strip s = c # cs"
    by (cases "strip s") (auto simp: py_int_def)
  with assms(2) length_strip [of s] have len: "length cs \<le> 3" by simp
  have p3: "(10::int) ^ length cs \<le> 10 ^ 3"
    using len by (intro power_increasing) simp_all
  have p4: "(10::int) ^ length (c # cs) \<le> 10 ^ 4"
    using len by (intro power_increasing) simp_all
  consider (neg) r where "c = CHR ''-''" "py_digits cs = Some r" "p = - r"
    | (pos) "c = CHR ''+''" "py_digits cs = Some p"
    | (plain) "py_digits (c # cs) = Some p"
    using assms(1) st by (auto simp: py_int_def split: if_splits)
  then show ?thesis
  proof cases
    case neg
    with py_digits_bound [of cs r] p3 show ?thesis by simp
  next
    case pos
    with py_digits_bound [of cs p] p3 show ?thesis by simp
  next
    case plain
    with py_digits_bound [of "c # cs" p] p4 show ?thesis by simp
  qed
qed

lemma length_int_to_number_signed:
  assumes "- 999 \<le> n" and "n \<le> 9999"
  shows "length (int_to_number n) = PLACES"
proof (cases "0 \<le> n")
  case True
  with assms show ?thesis by (simp add: length_int_to_number)
next
  case False
  with assms have "nat (- n) < 10 ^ Suc 2" by simp
  then have "length (digits_of (nat (- n))) \<le> Suc 2" by (rule length_digits_of)
  with False show ?thesis
    by (simp add: int_to_number_def py_str_def PLACES_def)
qed

lemma generate_name_shape:
  assumes "generate_name now migration_name dir = Inr fn"
  shows "\<exists>n label. - 998 \<le> n \<and> n \<le> 9999 \<and> fn = int_to_number n @ ''_'' @ label"
proof (cases "filter (endswith ''.sql'') (listdir dir) = []")
  case True
  with assms have "fn = int_to_number 1 @ ''_'' @ ''initial''"
    by (simp add: generate_name_empty int_to_number_1)
  then show ?thesis by (intro exI [of _ 1] exI [of _ "''initial''"]) simp
next
  case False
  with assms obtain prev p label where
    p: "py_int (take PLACES prev) = Some p" "\<not> p + 1 > 9999"
    and fn: "fn = int_to_number (p + 1) @ ''_'' @ label"
    by (auto simp: generate_name_def Let_def split: option.splits list.splits if_splits)
  from p(1) have "- 999 \<le> p"
    using py_int_four_chars [of "take PLACES prev" p] by (simp add: PLACES_def)
  with p(2) fn show ?thesis by (intro exI [of _ "p + 1"] exI [of _ label]) simp
qed

text \<open>
  Claim C7. When the \<open>.sql\<close> files all start with a numeral and the largest is
  \<open>9999\<close>, \<open>__generate_name\<close> raises \<open>Exception("Too many migrations")\<close> (the
  overflow error) and \<open>generate\<close> leaves the directory as it is. Whenever \<open>generate\<close>
  fails it creates no file, and whenever a name is generated it starts with the
  rendering of a number not above \<open>9999\<close>, which is exactly four characters long.
\<close>

theorem generate_stops_at_ceiling:
  "(filter (endswith ''.sql'') (listdir dir) \<noteq> [] \<and>
    (\<forall>f \<in> set (filter (endswith ''.sql'') (listdir dir)). py_int (take PLACES f) = Some (k f)) \<and>
    Max (k ` set (filter (endswith ''.sql'') (listdir dir))) = 9999 \<longrightarrow>
      generate_name now migration_name dir = Inl TooManyMigrations \<and>
      generate now migration_name dir = (Some TooManyMigrations, dir, [])) \<and>
   (\<forall>e. generate_name now migration_name dir = Inl e \<longrightarrow>
      generate now migration_name dir = (Some e, dir, [])) \<and>
   (\<forall>fn. generate_name now migration_name dir = Inr fn \<longrightarrow>
      (\<exists>n label. n \<le> 9999 \<and> fn = int_to_number n @ ''_'' @ label \<and>
         length (int_to_number n) = PLACES \<and> take PLACES fn = int_to_number n))"
proof -
  have ceiling: "generate_name now migration_name dir = Inl TooManyMigrations \<and>
      generate now migration_name dir = (Some TooManyMigrations, dir, [])"
    if h: "filter (endswith ''.sql'') (listdir dir) \<noteq> [] \<and>
      (\<forall>f \<in> set (filter (endswith ''.sql'') (listdir dir)). py_int (take PLACES f) = Some (k f)) \<and>
      Max (k ` set (filter (endswith ''.sql'') (listdir dir))) = 9999"
  proof -
    from h have ne: "filter (endswith ''.sql'') (listdir dir) \<noteq> []"
      and ks: "\<forall>f \<in> set (filter (endswith ''.sql'') (listdir dir)).
                 py_int (take PLACES f) = Some (k f)"
      and M: "Max (k ` set (filter (endswith ''.sql'') (listdir dir))) = 9999"
      by simp_all
    have "generate_name now migration_name dir = Inl TooManyMigrations"
      using generate_name_next [OF ne ks, of now migration_name] M by simp
    then show ?thesis by (simp add: generate_def)
  qed
  have untouched: "generate now migration_name dir = (Some e, dir, [])"
    if "generate_name now migration_name dir = Inl e" for e
    using that by (simp add: generate_def)
  have shape: "\<exists>n label. n \<le> 9999 \<and> fn = int_to_number n @ ''_'' @ label \<and>
         length (int_to_number n) = PLACES \<and> take PLACES fn = int_to_number n"
    if "generate_name now migration_name dir = Inr fn" for fn
  proof -
    from generate_name_shape [OF that] obtain n label where
      n: "- 998 \<le> n" "n \<le> 9999" and fn: "fn = int_to_number n @ ''_'' @ label"
      by blast
    from n have len: "length (int_to_number n) = PLACES"
      by (intro length_int_to_number_signed) simp_all
    with fn have "take PLACES fn = int_to_number n" by simp
    with n fn len show ?thesis by blast
  qed
  from ceiling untouched shape show ?thesis
    by blast
qed

lemma at_ceiling_keys:
  "\<forall>f \<in> set (filter (endswith ''.sql'') (listdir at_ceiling)). py_int (take PLACES f) = Some (file_key f)"
  by code_simp

lemma at_ceiling_max: "Max (file_key ` set (filter (endswith ''.sql'') (listdir at_ceiling))) = 9999"
  by code_simp

theorem generate_stops_at_ceiling_witness:
  "filter (endswith ''.sql'') (listdir at_ceiling) \<noteq> [] \<and>
   Max (file_key ` set (filter (endswith ''.sql'') (listdir at_ceiling))) = 9999 \<and>
   generate ''20240131_0900'' (Some ''one more'') at_ceiling = (Some TooManyMigrations, at_ceiling, []) \<and>
   generate_name ''20240131_0900'' (Some ''add users'') up_to_42 = Inr ''0043_add_users'' \<and>
   (\<exists>n label. n \<le> 9999 \<and> ''0043_add_users'' = int_to_number n @ ''_'' @ label \<and>
      length (int_to_number n) = PLACES \<and> take PLACES ''0043_add_users'' = int_to_number n)"
proof -
  have ne: "filter (endswith ''.sql'') (listdir at_ceiling) \<noteq> []"
    by code_simp
  have h: "filter (endswith ''.sql'') (listdir at_ceiling) \<noteq> [] \<and>
    (\<forall>f \<in> set (filter (endswith ''.sql'') (listdir at_ceiling)).
        py_int (take PLACES f) = Some (file_key f)) \<and>
    Max (file_key ` set (filter (endswith ''.sql'') (listdir at_ceiling))) = 9999"
    using ne at_ceiling_keys at_ceiling_max by simp
  have g: "generate_name ''20240131_0900'' (Some ''add users'') up_to_42 = Inr ''0043_add_users''"
    by code_simp
  note A = generate_stops_at_ceiling [THEN conjunct1, rule_format, OF h,
      of "''20240131_0900''" "Some ''one more''", THEN conjunct2]
  note B = generate_stops_at_ceiling [THEN conjunct2, THEN conjunct2, rule_format, OF g]
  from A B ne at_ceiling_max g show ?thesis
    by simp
qed

subsection \<open>Targets that are not versions\<close>

text \<open>
  Claim C8 says that a target that is malformed, below \<open>0000\<close> or above \<open>9999\<close> is
  rejected with an error. The code has no check of the range, and such targets are
  accepted. With stored version \<open>9998\<close> the target \<open>10000\<close> makes \<open>migrate\<close> run the upgrade
  script of \<open>9999\<close> and return without error; with stored version \<open>0001\<close> the target
  \<open>-1\<close> makes \<open>downgrade\<close> run the downgrade script of \<open>0001\<close> and return without
  error. Where files for the out-of-range numbers exist they are run as well: at
  stored version \<open>9999\<close> the target \<open>10000\<close> runs \<open>10000_big_upgrade.sql\<close> and stores its
  first four characters, \<open>1000\<close>; at stored version \<open>0000\<close> the target \<open>-1\<close> runs
  \<open>0000_zero_downgrade.sql\<close> and stores \<open>00-1\<close>.
\<close>

theorem out_of_range_target_accepted:
  "py_int ''10000'' = Some 10000 \<and>
   migrate recording_engine at_ceiling ''10000'' (db_at ''9998'') =
     \<lparr>failure = None,
      database = \<lparr>migrations = Some [''9999''], user = [[]]\<rparr>,
      events = [ReadFile ''9999_last_upgrade.sql'', Execute [], SetVersion ''9999'',
                Commit, LogInfo ''migration 9999_last_upgrade.sql executed successfully'']\<rparr> \<and>
   py_int ''-1'' = Some (- 1) \<and>
   downgrade recording_engine three_pairs ''-1'' (db_at ''0001'') =
     \<lparr>failure = None,
      database = \<lparr>migrations = Some [''0000''], user = [''drop schema'']\<rparr>,
      events = [ReadFile ''0001_initial_downgrade.sql'', Execute ''drop schema'',
                SetVersion ''0000'', Commit,
                LogInfo ''successfully executed 0001_initial_downgrade.sql'']\<rparr> \<and>
   migrate recording_engine [(''10000_big_upgrade.sql'', ''create big'')] ''10000'' (db_at ''9999'') =
     \<lparr>failure = None,
      database = \<lparr>migrations = Some [''1000''], user = [''create big'']\<rparr>,
      events = [ReadFile ''10000_big_upgrade.sql'', Execute ''create big'', SetVersion ''1000'',
                Commit, LogInfo ''migration 10000_big_upgrade.sql executed successfully'']\<rparr> \<and>
   downgrade recording_engine [(''0000_zero_downgrade.sql'', ''drop all'')] ''-1'' (db_at ''0000'') =
     \<lparr>failure = None,
      database = \<lparr>migrations = Some [''00-1''], user = [''drop all'']\<rparr>,
      events = [ReadFile ''0000_zero_downgrade.sql'', Execute ''drop all'', SetVersion ''00-1'',
                Commit, LogInfo ''successfully executed 0000_zero_downgrade.sql'']\<rparr>"
  by code_simp

text \<open>
  Claim C8, amended. A target that \<open>int()\<close> cannot read makes \<open>migrate\<close> and
  \<open>downgrade\<close> end with \<open>ValueError\<close> before any file is read or any script is run; the
  database is the one \<open>_get_last_migration_number\<close> left.
\<close>

theorem malformed_target_is_rejected:
  assumes "py_int target = None"
    and "get_last_migration_number d = (Inr cur, d1)"
  shows "migrate exec dir target d = \<lparr>failure = Some ValueError, database = d1, events = []\<rparr> \<and>
         downgrade exec dir target d = \<lparr>failure = Some ValueError, database = d1, events = []\<rparr>"
  using assms by (simp add: migrate_def downgrade_def abort_def split: option.splits)

theorem malformed_target_is_rejected_witness:
  "py_int ''v2'' = None \<and>
   get_last_migration_number (db_at ''0001'') = (Inr ''0001'', db_at ''0001'') \<and>
   migrate recording_engine three_pairs ''v2'' (db_at ''0001'') =
     \<lparr>failure = Some ValueError, database = db_at ''0001'', events = []\<rparr> \<and>
   downgrade recording_engine three_pairs ''v2'' (db_at ''0001'') =
     \<lparr>failure = Some ValueError, database = db_at ''0001'', events = []\<rparr>"
proof -
  have p: "py_int ''v2'' = None"
    by code_simp
  from malformed_target_is_rejected [OF p get_last_db_at, of recording_engine three_pairs]
  show ?thesis
    using p get_last_db_at [of "''0001''"] by simp
qed

end
